theory Spec2Isabelle
  imports Complex_Main "HOL-Library.Multiset"
begin

section \<open>Strings\<close>

text \<open>
  A Python \<open>str\<close> is a sequence of Unicode code points; \<open>len\<close>, \<open>in\<close>,
  \<open>startswith\<close> and \<open>split\<close> all count code points. The program's literals are
  Russian and English, so a string is modelled as the list of its code points. ASCII
  literals are written with \<open>asc\<close>, Cyrillic ones as the list of their code points
  (U+0410 .. U+042F are the capital letters, U+0430 .. U+044F the small ones), with a
  transliteration beside them.
\<close>

type_synonym ustr = "nat list"

definition asc :: "string \<Rightarrow> ustr" where
  "asc s = map of_char s"

text \<open>
  \<open>str.lower()\<close> on the Basic Latin and Cyrillic blocks, which hold every letter of the
  program's literals; other code points are left as they are.
\<close>

definition lower_cp :: "nat \<Rightarrow> nat" where
  "lower_cp c =
     (if 0x41 \<le> c \<and> c \<le> 0x5A then c + 0x20
      else if 0x410 \<le> c \<and> c \<le> 0x42F then c + 0x20
      else if 0x400 \<le> c \<and> c \<le> 0x40F then c + 0x50
      else c)"

definition lower :: "ustr \<Rightarrow> ustr" where
  "lower s = map lower_cp s"

text \<open>\<open>str.isspace\<close> of one code point: the whitespace of \<open>split()\<close>, \<open>strip()\<close> and \<open>\s\<close>.\<close>

definition is_space :: "nat \<Rightarrow> bool" where
  "is_space c =
     ((0x09 \<le> c \<and> c \<le> 0x0D) \<or> (0x1C \<le> c \<and> c \<le> 0x20) \<or> c = 0x85 \<or> c = 0xA0
      \<or> c = 0x1680 \<or> (0x2000 \<le> c \<and> c \<le> 0x200A) \<or> c = 0x2028 \<or> c = 0x2029
      \<or> c = 0x202F \<or> c = 0x205F \<or> c = 0x3000)"

text \<open>\<open>s.startswith(p)\<close>.\<close>

fun startswith :: "ustr \<Rightarrow> ustr \<Rightarrow> bool" where
  "startswith s [] = True"
| "startswith [] (c # p) = False"
| "startswith (a # s) (c # p) = (a = c \<and> startswith s p)"

text \<open>\<open>sub in s\<close> for two strings.\<close>

fun contains :: "ustr \<Rightarrow> ustr \<Rightarrow> bool" where
  "contains sub [] = (sub = [])"
| "contains sub (c # s) = (startswith (c # s) sub \<or> contains sub s)"

text \<open>\<open>s.split()\<close>: the maximal runs of characters that are not whitespace.\<close>

fun words_acc :: "ustr \<Rightarrow> ustr \<Rightarrow> ustr list" where
  "words_acc cur [] = (if cur = [] then [] else [cur])"
| "words_acc cur (c # s) =
     (if is_space c then (if cur = [] then words_acc [] s else cur # words_acc [] s)
      else words_acc (cur @ [c]) s)"

definition split_ws :: "ustr \<Rightarrow> ustr list" where
  "split_ws s = words_acc [] s"

text \<open>\<open>s.split(d)\<close> for a one-character separator: never empty, \<open>"".split(".") == [""]\<close>.\<close>

fun split_on :: "nat \<Rightarrow> ustr \<Rightarrow> ustr list" where
  "split_on d [] = [[]]"
| "split_on d (c # s) =
     (if c = d then [] # split_on d s
      else (case split_on d s of [] \<Rightarrow> [[c]] | w # ws \<Rightarrow> (c # w) # ws))"

text \<open>\<open>sep.join(parts)\<close>.\<close>

fun join :: "ustr \<Rightarrow> ustr list \<Rightarrow> ustr" where
  "join sep [] = []"
| "join sep [w] = w"
| "join sep (w # v # ws) = w @ sep @ join sep (v # ws)"

text \<open>\<open>s.strip()\<close>.\<close>

definition strip :: "ustr \<Rightarrow> ustr" where
  "strip s = rev (dropWhile is_space (rev (dropWhile is_space s)))"

section \<open>Data model (src/models/models.py)\<close>

datatype ProductCategory = PRESSURE_SENSOR | STEEL_CIRCLE | HAMMER | TIRE | UNKNOWN

text \<open>The \<open>.value\<close> of a member, and the members in declaration order.\<close>

fun category_value :: "ProductCategory \<Rightarrow> ustr" where
  "category_value PRESSURE_SENSOR = asc ''PRESSURE_SENSOR''"
| "category_value STEEL_CIRCLE = asc ''STEEL_CIRCLE''"
| "category_value HAMMER = asc ''HAMMER''"
| "category_value TIRE = asc ''TIRE''"
| "category_value UNKNOWN = asc ''UNKNOWN''"

definition all_categories :: "ProductCategory list" where
  "all_categories = [PRESSURE_SENSOR, STEEL_CIRCLE, HAMMER, TIRE, UNKNOWN]"

datatype ProcessingStatus = PENDING | PROCESSING | COMPLETED | FAILED | REJECTED

text \<open>
  The values a specification field can hold: the research result is parsed from JSON, and
  the parser fills specifications with strings.
\<close>

datatype jval =
    JNull
  | JBool bool
  | JNum rat
  | JStr ustr
  | JArr "jval list"
  | JObj "(ustr \<times> jval) list"

text \<open>
  A Python dict keeps its keys in insertion order, so the specification mapping is an
  association list with distinct keys. \<open>processing_timestamp\<close> holds the wall-clock time and
  is left out; a Python \<open>float\<close> is modelled by the rational it denotes, and the rounding
  of float arithmetic is not modelled.
\<close>

record Product =
  internal_code :: ustr
  original_name :: ustr
  original_unit :: ustr
  category_name :: ustr
  category :: ProductCategory
  normalized_unit :: "ustr option"
  okpd2_code :: "ustr option"
  comment :: "ustr option"
  specifications :: "(ustr \<times> jval) list"
  status :: ProcessingStatus
  error_message :: "ustr option"
  confidence_score :: rat
  excel_row :: "int option"

record ResearchResult =
  product_name :: ustr
  manufacturer :: "ustr option"
  model :: "ustr option"
  rr_specifications :: "(ustr \<times> jval) list"
  sources :: "ustr list"
  rr_confidence :: rat

record alternative_code =
  alt_code :: ustr
  alt_name :: ustr
  alt_score :: rat

record OKPD2Result =
  code :: ustr
  name :: ustr
  level :: int
  parent_code :: "ustr option"
  confidence :: rat
  alternative_codes :: "alternative_code list"

record ValidationResult =
  is_valid :: bool
  issues :: "ustr list"
  rejection_reason :: "ustr option"
  suggestions :: "ustr list"

text \<open>An exception, with the text that \<open>str(e)\<close> gives.\<close>

datatype py_error = KeyError ustr | IndexError | Raised ustr

fun error_text :: "py_error \<Rightarrow> ustr" where
  "error_text (KeyError k) = asc [CHR 0x27] @ k @ asc [CHR 0x27]"
| "error_text IndexError = asc ''list index out of range''"
| "error_text (Raised m) = m"

section \<open>Configuration (config/config.py)\<close>

record category_config =
  cfg_keywords :: "ustr list"
  cfg_unit :: ustr
  okpd2_prefix :: ustr
  cfg_schema :: "ustr list"

text \<open>
  \<open>PRODUCT_CATEGORIES\<close>, a dict whose keys are the strings \<open>"PRESSURE_SENSOR"\<close>,
  \<open>"STEEL_CIRCLE"\<close>, \<open>"HAMMER"\<close> and \<open>"TIRE"\<close>.
\<close>

definition PRODUCT_CATEGORIES :: "(ustr \<times> category_config) list" where
  "PRODUCT_CATEGORIES =
    [(asc ''PRESSURE_SENSOR'',
      \<lparr>cfg_keywords =
         [[0x434, 0x430, 0x442, 0x447, 0x438, 0x43A],  \<comment> \<open>datchik\<close>
          [0x434, 0x430, 0x432, 0x43B, 0x435, 0x43D],  \<comment> \<open>davlen\<close>
          asc ''sensor'', asc ''pressure'',
          [0x43F, 0x440, 0x435, 0x43E, 0x431, 0x440, 0x430, 0x437, 0x43E, 0x432, 0x430,
           0x442, 0x435, 0x43B, 0x44C]],  \<comment> \<open>preobrazovatel'\<close>
       cfg_unit = [0x448, 0x442, 0x443, 0x43A, 0x430],  \<comment> \<open>shtuka\<close>
       okpd2_prefix = asc ''26.51.52'',
       cfg_schema =
         [asc ''product'', asc ''type'', asc ''measured_quantity'', asc ''trademark_producer'',
          asc ''model_article'', asc ''identification'', asc ''measurement_range'',
          asc ''ambient_temperature'', asc ''accuracy_class'', asc ''output_signal'',
          asc ''climate_category'', asc ''explosion_protection'', asc ''electrical_connector'',
          asc ''additional_characteristics'', asc ''sensor_mount'', asc ''protection_degree'',
          asc ''material'', asc ''size_mm'', asc ''standard'', asc ''weight_kg'']\<rparr>),
     (asc ''STEEL_CIRCLE'',
      \<lparr>cfg_keywords =
         [[0x43A, 0x440, 0x443, 0x433],  \<comment> \<open>krug\<close>
          [0x441, 0x442, 0x430, 0x43B, 0x44C],  \<comment> \<open>stal'\<close>
          asc ''steel'', asc ''circle'',
          [0x43F, 0x440, 0x43E, 0x43A, 0x430, 0x442]],  \<comment> \<open>prokat\<close>
       cfg_unit = [0x442, 0x43E, 0x43D, 0x43D, 0x430],  \<comment> \<open>tonna\<close>
       okpd2_prefix = asc ''24.10.75'',
       cfg_schema =
         [asc ''product'', asc ''hardness'', asc ''rolling_accuracy'', asc ''curvature_class'',
          asc ''diameter_mm'', asc ''length'', asc ''length_dimension'',
          asc ''standard_assortment'', asc ''surface_quality'', asc ''steel_grade'',
          asc ''standard_material'', asc ''weight_ton'']\<rparr>),
     (asc ''HAMMER'',
      \<lparr>cfg_keywords =
         [[0x43C, 0x43E, 0x43B, 0x43E, 0x442],  \<comment> \<open>molot\<close>
          asc ''hammer''],
       cfg_unit = [0x448, 0x442, 0x443, 0x43A, 0x430],  \<comment> \<open>shtuka\<close>
       okpd2_prefix = asc ''25.73.30'',
       cfg_schema =
         [asc ''product'', asc ''type'', asc ''striker_type'', asc ''trademark'',
          asc ''model_designation'', asc ''article'', asc ''striker_weight_kg'',
          asc ''length_mm'', asc ''handle_material'', asc ''handle_type'', asc ''standard'',
          asc ''additional_characteristics'', asc ''weight_kg'']\<rparr>),
     (asc ''TIRE'',
      \<lparr>cfg_keywords =
         [[0x448, 0x438, 0x43D, 0x430],  \<comment> \<open>shina\<close>
          asc ''tire'',
          [0x440, 0x435, 0x437, 0x438, 0x43D, 0x430],  \<comment> \<open>rezina\<close>
          [0x43F, 0x43E, 0x43A, 0x440, 0x44B, 0x448, 0x43A, 0x430]],  \<comment> \<open>pokryshka\<close>
       cfg_unit = [0x448, 0x442, 0x443, 0x43A, 0x430],  \<comment> \<open>shtuka\<close>
       okpd2_prefix = asc ''22.11.11'',
       cfg_schema =
         [asc ''product'', asc ''season'', asc ''spikes_on_tires'', asc ''trademark_manufacturer'',
          asc ''model'', asc ''article'', asc ''width'', asc ''profile'', asc ''diameter'',
          asc ''speed_index'', asc ''load_index'', asc ''extra_load'', asc ''construction'',
          asc ''weight_kg'']\<rparr>)]"

text \<open>
  The two objects a membership test on this dict is made with. The keys are \<open>str\<close>
  objects. \<open>ProductCategory\<close> derives from \<open>Enum\<close> alone, not from \<open>str\<close>: a member
  hashes as its name does, but \<open>==\<close> between a member and a \<open>str\<close> is false, so a dict
  lookup with a member as the key compares it with every key of equal hash and finds none.
\<close>

datatype py_key = StrKey ustr | EnumKey ProductCategory

definition dict_has_key :: "(ustr \<times> 'v) list \<Rightarrow> py_key \<Rightarrow> bool" where
  "dict_has_key d k = (k \<in> set (map (\<lambda>kv. StrKey (fst kv)) d))"

text \<open>\<open>d[k]\<close> for a string key: the value, or KeyError.\<close>

definition dict_get :: "(ustr \<times> 'v) list \<Rightarrow> ustr \<Rightarrow> py_error + 'v" where
  "dict_get d k = (case map_of d k of None \<Rightarrow> Inl (KeyError k) | Some v \<Rightarrow> Inr v)"

section \<open>OKPD2 classifier agent (src/agents/okpd2_agent.py)\<close>

text \<open>
  A candidate is a dict with the keys \<open>code\<close> and \<open>name\<close> and, optionally, \<open>level\<close>.
  The research result reaches the agent as a dict; \<open>None\<close> and the empty dict are both
  false, and are both \<open>None\<close> here.
\<close>

record candidate =
  cand_code :: ustr
  cand_name :: ustr
  cand_level :: "int option"

record research_dict =
  rd_manufacturer :: "ustr option"
  rd_model :: "ustr option"
  rd_specifications :: "(ustr \<times> jval) list"
  rd_product_type :: "ustr option"

definition get_code_level :: "ustr \<Rightarrow> int" where
  "get_code_level c =
     (let parts = split_on 0x2E c in
      if length parts \<ge> 3 \<and> parts ! 2 \<noteq> asc ''00'' then
        (if length parts = 4 then 4 else 3)
      else if length parts \<ge> 2 \<and> parts ! 1 \<noteq> asc ''00'' then 2
      else 1)"

definition get_parent_code :: "ustr \<Rightarrow> ustr option" where
  "get_parent_code c =
     (let parts = split_on 0x2E c in
      if length parts > 1 then
        (if length parts = 4 then Some (join (asc ''.'') (take 3 parts))
         else if length parts = 3 then Some (join (asc ''.'') (take 2 parts))
         else if length parts = 2 then Some (parts ! 0)
         else None)
      else None)"

definition score_candidate ::
  "candidate \<Rightarrow> Product \<Rightarrow> ProductCategory \<Rightarrow> research_dict option \<Rightarrow> py_error + rat" where
  "score_candidate cand product cat research_result =
     (let lvl = (case cand_level cand of Some l \<Rightarrow> l | None \<Rightarrow> get_code_level (cand_code cand));
          score1 = 0 + of_int lvl * 0.2;
          name_lower = lower (cand_name cand);
          product_lower = lower (original_name product);
          matches = length (filter (\<lambda>word. length word > 3 \<and> contains word name_lower)
                              (split_ws product_lower));
          rest = (\<lambda>score2.
             let score3 = score2 + min (of_nat matches * 0.1) 0.3 in
             (case research_result of
                None \<Rightarrow> score3
              | Some rd \<Rightarrow>
                  (case rd_product_type rd of
                     None \<Rightarrow> score3
                   | Some pt \<Rightarrow>
                       if pt \<noteq> [] \<and> contains (lower pt) name_lower then score3 + 0.2
                       else score3)))
      in
      if dict_has_key PRODUCT_CATEGORIES (EnumKey cat) then
        (case dict_get PRODUCT_CATEGORIES (category_value cat) of
           Inl e \<Rightarrow> Inl e
         | Inr cfg \<Rightarrow>
             if startswith (cand_code cand) (okpd2_prefix cfg) then Inr (rest (score1 + 0.3))
             else Inr (rest score1))
      else Inr (rest score1))"

fun score_all ::
  "candidate list \<Rightarrow> Product \<Rightarrow> ProductCategory \<Rightarrow> research_dict option
     \<Rightarrow> py_error + (rat \<times> candidate) list" where
  "score_all [] product cat research_result = Inr []"
| "score_all (cand # cands) product cat research_result =
     (case score_candidate cand product cat research_result of
        Inl e \<Rightarrow> Inl e
      | Inr s \<Rightarrow>
          (case score_all cands product cat research_result of
             Inl e \<Rightarrow> Inl e
           | Inr scored \<Rightarrow> Inr ((s, cand) # scored)))"

text \<open>
  \<open>list.sort(key, reverse=True)\<close> is stable: equal scores keep their order. \<open>sort_key\<close>
  is a stable insertion sort, here on the negated score.
\<close>

definition sort_scored :: "(rat \<times> candidate) list \<Rightarrow> (rat \<times> candidate) list" where
  "sort_scored scored = sort_key (\<lambda>sc. - fst sc) scored"

definition select_best_code ::
  "candidate list \<Rightarrow> Product \<Rightarrow> ProductCategory \<Rightarrow> research_dict option
     \<Rightarrow> py_error + OKPD2Result" where
  "select_best_code candidates product cat research_result =
     (if candidates = [] then
        (if dict_has_key PRODUCT_CATEGORIES (EnumKey cat) then
           (case dict_get PRODUCT_CATEGORIES (category_value cat) of
              Inl e \<Rightarrow> Inl e
            | Inr cfg \<Rightarrow>
                Inr \<lparr>code = okpd2_prefix cfg,
                     name = asc ''Default classification for '' @ category_value cat,
                     level = 2, parent_code = None, confidence = 0.3,
                     alternative_codes = []\<rparr>)
         else
           Inr \<lparr>code = asc ''00.00.00'', name = asc ''Unclassified product'',
                level = 1, parent_code = None, confidence = 0.1,
                alternative_codes = []\<rparr>)
      else
        (case score_all candidates product cat research_result of
           Inl e \<Rightarrow> Inl e
         | Inr scored \<Rightarrow>
             (case sort_scored scored of
                [] \<Rightarrow> Inl IndexError
              | (best_score, best_candidate) # others \<Rightarrow>
                  Inr \<lparr>code = cand_code best_candidate,
                       name = cand_name best_candidate,
                       level = (case cand_level best_candidate of
                                  Some l \<Rightarrow> l
                                | None \<Rightarrow> get_code_level (cand_code best_candidate)),
                       parent_code = get_parent_code (cand_code best_candidate),
                       confidence = min best_score 1.0,
                       alternative_codes =
                         map (\<lambda>sc. \<lparr>alt_code = cand_code (snd sc),
                                     alt_name = cand_name (snd sc),
                                     alt_score = fst sc\<rparr>) (take 3 others)\<rparr>)))"

text \<open>
  The expected prefix of a category, as the configuration gives it:
  \<open>PRODUCT_CATEGORIES[category.value]["okpd2_prefix"]\<close>; UNKNOWN has none.
\<close>

definition expected_prefix :: "ProductCategory \<Rightarrow> ustr option" where
  "expected_prefix cat = map_option okpd2_prefix (map_of PRODUCT_CATEGORIES (category_value cat))"



text \<open>A product as the parser builds it from a row, used in the examples below.\<close>

definition example_product :: "ustr \<Rightarrow> ustr \<Rightarrow> ustr \<Rightarrow> ProductCategory \<Rightarrow> Product" where
  "example_product icode oname ounit cat =
     \<lparr>internal_code = icode, original_name = oname, original_unit = ounit,
      category_name = asc ''Unknown'', category = cat, normalized_unit = None,
      okpd2_code = None, comment = None, specifications = [], status = PENDING,
      error_message = None, confidence_score = 0, excel_row = Some 2\<rparr>"

section \<open>Regular expressions (the \<open>re\<close> module)\<close>

text \<open>
  The patterns of the program use literals, \<open>.\<close>, \<open>\d\<close>, \<open>\s\<close>, alternation,
  grouping, \<open>*\<close>, \<open>+\<close>, \<open>?\<close> and counted repetition. An atom matches one character:
  \<open>Exact\<close> a literal, \<open>NoCase\<close> a literal under \<open>re.IGNORECASE\<close>, \<open>Dot\<close> anything
  but a newline, \<open>Digit\<close> the decimal digits 0 to 9 and \<open>Space\<close> whitespace.
\<close>

datatype atom = Exact nat | NoCase nat | Dot | Digit | Space

definition is_digit :: "nat \<Rightarrow> bool" where
  "is_digit c = (0x30 \<le> c \<and> c \<le> 0x39)"

fun atom_match :: "atom \<Rightarrow> nat \<Rightarrow> bool" where
  "atom_match (Exact x) c = (c = x)"
| "atom_match (NoCase x) c = (lower_cp c = lower_cp x)"
| "atom_match Dot c = (c \<noteq> 0x0A)"
| "atom_match Digit c = is_digit c"
| "atom_match Space c = is_space c"

datatype rx = RZero | REps | RAtom atom | RSeq rx rx | RAlt rx rx | RStar rx

fun lit :: "ustr \<Rightarrow> rx" where
  "lit [] = REps"
| "lit (c # s) = RSeq (RAtom (Exact c)) (lit s)"

fun ilit :: "ustr \<Rightarrow> rx" where
  "ilit [] = REps"
| "ilit (c # s) = RSeq (RAtom (NoCase c)) (ilit s)"

fun alts :: "rx list \<Rightarrow> rx" where
  "alts [] = RZero"
| "alts [r] = r"
| "alts (r # q # rs) = RAlt r (alts (q # rs))"

definition rx_plus :: "rx \<Rightarrow> rx" where
  "rx_plus r = RSeq r (RStar r)"

definition rx_opt :: "rx \<Rightarrow> rx" where
  "rx_opt r = RAlt r REps"

definition rx_two :: "rx \<Rightarrow> rx" where
  "rx_two r = RSeq r r"

definition rx_three :: "rx \<Rightarrow> rx" where
  "rx_three r = RSeq r (RSeq r r)"

text \<open>\<open>.*\<close>\<close>

definition any_star :: rx where
  "any_star = RStar (RAtom Dot)"

text \<open>
  Matching by derivatives: \<open>nullable r\<close> says that \<open>r\<close> matches the empty string, and
  \<open>deriv c r\<close> matches what \<open>r\<close> matches after a leading \<open>c\<close>. \<open>rx_seq\<close> and \<open>rx_alt\<close>
  build a sequence and an alternative and drop the parts that can match nothing.
\<close>

fun nullable :: "rx \<Rightarrow> bool" where
  "nullable RZero = False"
| "nullable REps = True"
| "nullable (RAtom a) = False"
| "nullable (RSeq r s) = (nullable r \<and> nullable s)"
| "nullable (RAlt r s) = (nullable r \<or> nullable s)"
| "nullable (RStar r) = True"

fun rx_seq :: "rx \<Rightarrow> rx \<Rightarrow> rx" where
  "rx_seq RZero s = RZero"
| "rx_seq REps s = s"
| "rx_seq r s = RSeq r s"

fun rx_alt :: "rx \<Rightarrow> rx \<Rightarrow> rx" where
  "rx_alt RZero s = s"
| "rx_alt r RZero = r"
| "rx_alt r s = RAlt r s"

fun deriv :: "nat \<Rightarrow> rx \<Rightarrow> rx" where
  "deriv c RZero = RZero"
| "deriv c REps = RZero"
| "deriv c (RAtom a) = (if atom_match a c then REps else RZero)"
| "deriv c (RSeq r s) =
     (if nullable r then rx_alt (rx_seq (deriv c r) s) (deriv c s)
      else rx_seq (deriv c r) s)"
| "deriv c (RAlt r s) = rx_alt (deriv c r) (deriv c s)"
| "deriv c (RStar r) = rx_seq (deriv c r) (RStar r)"

text \<open>The whole string matches.\<close>

fun rx_matches :: "rx \<Rightarrow> ustr \<Rightarrow> bool" where
  "rx_matches r [] = nullable r"
| "rx_matches r (c # s) = rx_matches (deriv c r) s"

text \<open>Some prefix of the string matches.\<close>

fun rx_match_prefix :: "rx \<Rightarrow> ustr \<Rightarrow> bool" where
  "rx_match_prefix r [] = nullable r"
| "rx_match_prefix r (c # s) = (nullable r \<or> rx_match_prefix (deriv c r) s)"

text \<open>\<open>pattern.search(s)\<close> as a truth value: a match starts somewhere in the string.\<close>

fun re_search :: "rx \<Rightarrow> ustr \<Rightarrow> bool" where
  "re_search r [] = nullable r"
| "re_search r (c # s) = (rx_match_prefix r (c # s) \<or> re_search r s)"

text \<open>
  \<open>re.match\<close> with a pattern \<open>^r$\<close>, as a truth value: \<open>$\<close> matches at the end of the
  string and before a newline that ends the string.
\<close>

definition re_match_anchored :: "rx \<Rightarrow> ustr \<Rightarrow> bool" where
  "re_match_anchored r s =
     (rx_matches r s \<or> (s \<noteq> [] \<and> last s = 0x0A \<and> rx_matches r (butlast s)))"

section \<open>Quality validation agent (src/agents/validation_agent.py)\<close>

subsection \<open>Formatting numbers into messages\<close>

text \<open>\<open>str(n)\<close> for an integer, as the f-strings of the messages use it.\<close>

fun str_of_nat :: "nat \<Rightarrow> ustr" where
  "str_of_nat n = (if n < 10 then [0x30 + n] else str_of_nat (n div 10) @ [0x30 + n mod 10])"

declare str_of_nat.simps [simp del]

definition str_of_int :: "int \<Rightarrow> ustr" where
  "str_of_int i = (if i < 0 then asc ''-'' @ str_of_nat (nat (- i)) else str_of_nat (nat i))"

text \<open>
  \<open>f"{x:.2f}"\<close>: the value rounded to two decimals, ties to the even neighbour, with the
  sign of a negative value kept.
\<close>

definition round_half_even :: "rat \<Rightarrow> nat" where
  "round_half_even y =
     (let f = nat \<lfloor>y\<rfloor>; r = y - of_int \<lfloor>y\<rfloor> in
      if r > 1 / 2 then f + 1
      else if r = 1 / 2 then (if even f then f else f + 1)
      else f)"

definition format_2f :: "rat \<Rightarrow> ustr" where
  "format_2f x =
     (let q = round_half_even (\<bar>x\<bar> * 100) in
      (if x < 0 then asc ''-'' else [])
      @ str_of_nat (q div 100) @ asc ''.''
      @ [0x30 + (q mod 100) div 10, 0x30 + q mod 10])"

subsection \<open>Criteria and messages\<close>

record criteria =
  required_specs :: "ustr list"
  optional_specs :: "ustr list"
  unit_options :: "ustr list"
  min_specs_count :: nat

definition units_piece :: "ustr list" where
  "units_piece =
     [[0x448, 0x442, 0x443, 0x43A, 0x430],  \<comment> \<open>shtuka\<close>
      [0x448, 0x442],  \<comment> \<open>sht\<close>
      [0x448, 0x442, 0x2E]]"

definition units_ton :: "ustr list" where
  "units_ton =
     [[0x442, 0x43E, 0x43D, 0x43D, 0x430],  \<comment> \<open>tonna\<close>
      [0x442],  \<comment> \<open>t\<close>
      [0x442, 0x43D]]  \<comment> \<open>tn\<close>"

text \<open>
  \<open>_load_validation_criteria\<close>: a dict keyed by the enum members themselves, so a lookup
  with a member finds its entry; UNKNOWN has none.
\<close>

fun validation_criteria :: "ProductCategory \<Rightarrow> criteria option" where
  "validation_criteria PRESSURE_SENSOR =
     Some \<lparr>required_specs = [asc ''measurement_range'', asc ''accuracy_class'', asc ''output_signal''],
           optional_specs = [asc ''protection_degree'', asc ''temperature_range'', asc ''material''],
           unit_options = units_piece, min_specs_count = 5\<rparr>"
| "validation_criteria STEEL_CIRCLE =
     Some \<lparr>required_specs = [asc ''diameter_mm'', asc ''steel_grade'', asc ''standard''],
           optional_specs = [asc ''length'', asc ''hardness'', asc ''surface_quality''],
           unit_options = units_ton, min_specs_count = 4\<rparr>"
| "validation_criteria HAMMER =
     Some \<lparr>required_specs = [asc ''striker_weight_kg'', asc ''length_mm'', asc ''type''],
           optional_specs = [asc ''handle_material'', asc ''standard'', asc ''brand''],
           unit_options = units_piece, min_specs_count = 4\<rparr>"
| "validation_criteria TIRE =
     Some \<lparr>required_specs = [asc ''width'', asc ''profile'', asc ''diameter'', asc ''season''],
           optional_specs = [asc ''speed_index'', asc ''load_index'', asc ''brand'', asc ''model''],
           unit_options = units_piece, min_specs_count = 5\<rparr>"
| "validation_criteria UNKNOWN = None"

definition msg_category_unknown :: ustr where
  "msg_category_unknown =
     [0x41D, 0x435, 0x20, 0x443, 0x434, 0x430, 0x43B, 0x43E, 0x441, 0x44C, 0x20, 0x43E,
      0x43F, 0x440, 0x435, 0x434, 0x435, 0x43B, 0x438, 0x442, 0x44C, 0x20, 0x43A,
      0x430, 0x442, 0x435, 0x433, 0x43E, 0x440, 0x438, 0x44E, 0x20, 0x43F, 0x440,
      0x43E, 0x434, 0x443, 0x43A, 0x442, 0x430]"  \<comment> \<open>Ne udalos' opredelit' kategoriyu produkta\<close>

definition msg_okpd2_missing :: ustr where
  "msg_okpd2_missing =
     [0x41E, 0x442, 0x441, 0x443, 0x442, 0x441, 0x442, 0x432, 0x443, 0x435, 0x442,
      0x20, 0x43A, 0x43E, 0x434, 0x20, 0x41E, 0x41A, 0x41F, 0x414, 0x32]"  \<comment> \<open>Otsutstvuet kod OKPD2\<close>

definition msg_okpd2_format :: ustr where
  "msg_okpd2_format =
     [0x41D, 0x435, 0x432, 0x435, 0x440, 0x43D, 0x44B, 0x439, 0x20, 0x444, 0x43E,
      0x440, 0x43C, 0x430, 0x442, 0x20, 0x43A, 0x43E, 0x434, 0x430, 0x20, 0x41E, 0x41A,
      0x41F, 0x414, 0x32, 0x3A, 0x20]"  \<comment> \<open>Nevernyj format koda OKPD2: \<close>

definition msg_okpd2_level :: ustr where
  "msg_okpd2_level =
     [0x41D, 0x435, 0x434, 0x43E, 0x441, 0x442, 0x430, 0x442, 0x43E, 0x447, 0x43D,
      0x44B, 0x439, 0x20, 0x443, 0x440, 0x43E, 0x432, 0x435, 0x43D, 0x44C, 0x20, 0x434,
      0x435, 0x442, 0x430, 0x43B, 0x438, 0x437, 0x430, 0x446, 0x438, 0x438, 0x20,
      0x41E, 0x41A, 0x41F, 0x414, 0x32, 0x20, 0x28, 0x443, 0x440, 0x43E, 0x432, 0x435,
      0x43D, 0x44C, 0x20]"  \<comment> \<open>Nedostatochnyj uroven' detalizatsii OKPD2 (uroven' \<close>

definition msg_okpd2_confidence :: ustr where
  "msg_okpd2_confidence =
     [0x41D, 0x438, 0x437, 0x43A, 0x430, 0x44F, 0x20, 0x443, 0x432, 0x435, 0x440,
      0x435, 0x43D, 0x43D, 0x43E, 0x441, 0x442, 0x44C, 0x20, 0x432, 0x20, 0x43A, 0x43E,
      0x434, 0x435, 0x20, 0x41E, 0x41A, 0x41F, 0x414, 0x32, 0x20, 0x28]"  \<comment> \<open>Nizkaya uverennost' v kode OKPD2 (\<close>

definition msg_okpd2_code :: ustr where
  "msg_okpd2_code =
     [0x41A, 0x43E, 0x434, 0x20, 0x41E, 0x41A, 0x41F, 0x414, 0x32, 0x20]"  \<comment> \<open>Kod OKPD2 \<close>

definition msg_not_of_category :: ustr where
  "msg_not_of_category =
     [0x20, 0x43D, 0x435, 0x20, 0x441, 0x43E, 0x43E, 0x442, 0x432, 0x435, 0x442, 0x441,
      0x442, 0x432, 0x443, 0x435, 0x442, 0x20, 0x43A, 0x430, 0x442, 0x435, 0x433,
      0x43E, 0x440, 0x438, 0x438, 0x20]"  \<comment> \<open> ne sootvetstvuet kategorii \<close>

definition msg_specs_missing :: ustr where
  "msg_specs_missing =
     [0x41E, 0x442, 0x441, 0x443, 0x442, 0x441, 0x442, 0x432, 0x443, 0x44E, 0x442,
      0x20, 0x442, 0x435, 0x445, 0x43D, 0x438, 0x447, 0x435, 0x441, 0x43A, 0x438,
      0x435, 0x20, 0x445, 0x430, 0x440, 0x430, 0x43A, 0x442, 0x435, 0x440, 0x438,
      0x441, 0x442, 0x438, 0x43A, 0x438]"  \<comment> \<open>Otsutstvuyut tekhnicheskie kharakteristiki\<close>

definition msg_no_criteria :: ustr where
  "msg_no_criteria =
     [0x41D, 0x435, 0x442, 0x20, 0x43A, 0x440, 0x438, 0x442, 0x435, 0x440, 0x438,
      0x435, 0x432, 0x20, 0x432, 0x430, 0x43B, 0x438, 0x434, 0x430, 0x446, 0x438,
      0x438, 0x20, 0x434, 0x43B, 0x44F, 0x20, 0x434, 0x430, 0x43D, 0x43D, 0x43E, 0x439,
      0x20, 0x43A, 0x430, 0x442, 0x435, 0x433, 0x43E, 0x440, 0x438, 0x438]"  \<comment> \<open>Net kriteriev validatsii dlya dannoj kategorii\<close>

definition msg_required_missing :: ustr where
  "msg_required_missing =
     [0x41E, 0x442, 0x441, 0x443, 0x442, 0x441, 0x442, 0x432, 0x443, 0x44E, 0x442,
      0x20, 0x43E, 0x431, 0x44F, 0x437, 0x430, 0x442, 0x435, 0x43B, 0x44C, 0x43D,
      0x44B, 0x435, 0x20, 0x445, 0x430, 0x440, 0x430, 0x43A, 0x442, 0x435, 0x440,
      0x438, 0x441, 0x442, 0x438, 0x43A, 0x438, 0x3A, 0x20]"  \<comment> \<open>Otsutstvuyut obyazatel'nye kharakteristiki: \<close>

definition msg_too_few_specs :: ustr where
  "msg_too_few_specs =
     [0x41D, 0x435, 0x434, 0x43E, 0x441, 0x442, 0x430, 0x442, 0x43E, 0x447, 0x43D,
      0x43E, 0x20, 0x445, 0x430, 0x440, 0x430, 0x43A, 0x442, 0x435, 0x440, 0x438,
      0x441, 0x442, 0x438, 0x43A, 0x20, 0x28]"  \<comment> \<open>Nedostatochno kharakteristik (\<close>

definition msg_of_minimum :: ustr where
  "msg_of_minimum =
     [0x20, 0x438, 0x437, 0x20, 0x43C, 0x438, 0x43D, 0x438, 0x43C, 0x443, 0x43C, 0x20]"  \<comment> \<open> iz minimum \<close>

definition msg_placeholders :: ustr where
  "msg_placeholders =
     [0x41D, 0x430, 0x439, 0x434, 0x435, 0x43D, 0x44B, 0x20, 0x43D, 0x435, 0x437,
      0x430, 0x43F, 0x43E, 0x43B, 0x43D, 0x435, 0x43D, 0x43D, 0x44B, 0x435, 0x20,
      0x445, 0x430, 0x440, 0x430, 0x43A, 0x442, 0x435, 0x440, 0x438, 0x441, 0x442,
      0x438, 0x43A, 0x438, 0x3A, 0x20]"  \<comment> \<open>Najdeny nezapolnennye kharakteristiki: \<close>

definition msg_unit :: ustr where
  "msg_unit =
     [0x415, 0x434, 0x438, 0x43D, 0x438, 0x446, 0x430, 0x20, 0x438, 0x437, 0x43C,
      0x435, 0x440, 0x435, 0x43D, 0x438, 0x44F, 0x20, 0x27]"  \<comment> \<open>Edinitsa izmereniya '\<close>

definition msg_unit_not_of_category :: ustr where
  "msg_unit_not_of_category =
     [0x27, 0x20, 0x43D, 0x435, 0x20, 0x441, 0x43E, 0x43E, 0x442, 0x432, 0x435, 0x442,
      0x441, 0x442, 0x432, 0x443, 0x435, 0x442, 0x20, 0x43A, 0x430, 0x442, 0x435,
      0x433, 0x43E, 0x440, 0x438, 0x438, 0x20]"  \<comment> \<open>' ne sootvetstvuet kategorii \<close>

definition msg_expected :: ustr where
  "msg_expected =
     [0x2E, 0x20, 0x41E, 0x436, 0x438, 0x434, 0x430, 0x435, 0x442, 0x441, 0x44F, 0x3A,
      0x20]"  \<comment> \<open>. Ozhidaetsya: \<close>

definition msg_color_variability :: ustr where
  "msg_color_variability =
     [0x41E, 0x431, 0x43D, 0x430, 0x440, 0x443, 0x436, 0x435, 0x43D, 0x430, 0x20,
      0x432, 0x430, 0x440, 0x438, 0x430, 0x442, 0x438, 0x432, 0x43D, 0x43E, 0x441,
      0x442, 0x44C, 0x20, 0x43F, 0x43E, 0x20, 0x446, 0x432, 0x435, 0x442, 0x443]"  \<comment> \<open>Obnaruzhena variativnost' po tsvetu\<close>

definition msg_parameter_variability :: ustr where
  "msg_parameter_variability =
     [0x41E, 0x431, 0x43D, 0x430, 0x440, 0x443, 0x436, 0x435, 0x43D, 0x430, 0x20,
      0x432, 0x430, 0x440, 0x438, 0x430, 0x442, 0x438, 0x432, 0x43D, 0x43E, 0x441,
      0x442, 0x44C, 0x20, 0x43F, 0x43E, 0x20, 0x43F, 0x430, 0x440, 0x430, 0x43C, 0x435,
      0x442, 0x440, 0x443, 0x3A, 0x20]"  \<comment> \<open>Obnaruzhena variativnost' po parametru: \<close>

definition msg_manufacturer :: ustr where
  "msg_manufacturer =
     [0x41D, 0x435, 0x432, 0x43E, 0x437, 0x43C, 0x43E, 0x436, 0x43D, 0x43E, 0x20,
      0x43E, 0x43F, 0x440, 0x435, 0x434, 0x435, 0x43B, 0x438, 0x442, 0x44C, 0x20,
      0x43F, 0x440, 0x43E, 0x438, 0x437, 0x432, 0x43E, 0x434, 0x438, 0x442, 0x435,
      0x43B, 0x44F]"  \<comment> \<open>Nevozmozhno opredelit' proizvoditelya\<close>

definition msg_model_short :: ustr where
  "msg_model_short =
     [0x41C, 0x43E, 0x434, 0x435, 0x43B, 0x44C, 0x2F, 0x430, 0x440, 0x442, 0x438,
      0x43A, 0x443, 0x43B, 0x20, 0x441, 0x43B, 0x438, 0x448, 0x43A, 0x43E, 0x43C, 0x20,
      0x43A, 0x43E, 0x440, 0x43E, 0x442, 0x43A, 0x438, 0x439]"  \<comment> \<open>Model'/artikul slishkom korotkij\<close>

definition msg_generic :: ustr where
  "msg_generic =
     [0x421, 0x43B, 0x438, 0x448, 0x43A, 0x43E, 0x43C, 0x20, 0x43E, 0x431, 0x449,
      0x435, 0x435, 0x20, 0x43E, 0x43F, 0x438, 0x441, 0x430, 0x43D, 0x438, 0x435, 0x20,
      0x43F, 0x440, 0x43E, 0x434, 0x443, 0x43A, 0x442, 0x430]"  \<comment> \<open>Slishkom obshchee opisanie produkta\<close>

definition rejection_marker :: ustr where
  "rejection_marker =
     [0x41D, 0x435, 0x20, 0x43F, 0x43E, 0x434, 0x43B, 0x435, 0x436, 0x438, 0x442, 0x20,
      0x43D, 0x43E, 0x440, 0x43C, 0x430, 0x43B, 0x438, 0x437, 0x430, 0x446, 0x438,
      0x438, 0x3A, 0x20]"  \<comment> \<open>Ne podlezhit normalizatsii: \<close>

definition reason_okpd2 :: ustr where
  "reason_okpd2 =
     [0x41D, 0x435, 0x20, 0x43F, 0x43E, 0x434, 0x43B, 0x435, 0x436, 0x438, 0x442, 0x20,
      0x43D, 0x43E, 0x440, 0x43C, 0x430, 0x43B, 0x438, 0x437, 0x430, 0x446, 0x438,
      0x438, 0x3A, 0x20, 0x43E, 0x442, 0x441, 0x443, 0x442, 0x441, 0x442, 0x432, 0x443,
      0x435, 0x442, 0x20, 0x43A, 0x43E, 0x434, 0x20, 0x41E, 0x41A, 0x41F, 0x414, 0x32]"  \<comment> \<open>Ne podlezhit normalizatsii: otsutstvuet kod OKPD2\<close>

definition reason_manufacturer :: ustr where
  "reason_manufacturer =
     [0x41D, 0x435, 0x20, 0x43F, 0x43E, 0x434, 0x43B, 0x435, 0x436, 0x438, 0x442, 0x20,
      0x43D, 0x43E, 0x440, 0x43C, 0x430, 0x43B, 0x438, 0x437, 0x430, 0x446, 0x438,
      0x438, 0x3A, 0x20, 0x43D, 0x435, 0x432, 0x43E, 0x437, 0x43C, 0x43E, 0x436, 0x43D,
      0x43E, 0x20, 0x43E, 0x43F, 0x440, 0x435, 0x434, 0x435, 0x43B, 0x438, 0x442,
      0x44C, 0x20, 0x43F, 0x440, 0x43E, 0x438, 0x437, 0x432, 0x43E, 0x434, 0x438,
      0x442, 0x435, 0x43B, 0x44F]"  \<comment> \<open>Ne podlezhit normalizatsii: nevozmozhno opredelit' proizvoditelya\<close>

definition reason_color :: ustr where
  "reason_color =
     [0x41D, 0x435, 0x20, 0x43F, 0x43E, 0x434, 0x43B, 0x435, 0x436, 0x438, 0x442, 0x20,
      0x43D, 0x43E, 0x440, 0x43C, 0x430, 0x43B, 0x438, 0x437, 0x430, 0x446, 0x438,
      0x438, 0x3A, 0x20, 0x430, 0x440, 0x442, 0x438, 0x43A, 0x443, 0x43B, 0x20, 0x43D,
      0x435, 0x20, 0x441, 0x43E, 0x43E, 0x442, 0x432, 0x435, 0x442, 0x441, 0x442,
      0x432, 0x443, 0x435, 0x442, 0x20, 0x446, 0x432, 0x435, 0x442, 0x443]"  \<comment> \<open>Ne podlezhit normalizatsii: artikul ne sootvetstvuet tsvetu\<close>

definition reason_size :: ustr where
  "reason_size =
     [0x41D, 0x435, 0x20, 0x43F, 0x43E, 0x434, 0x43B, 0x435, 0x436, 0x438, 0x442, 0x20,
      0x43D, 0x43E, 0x440, 0x43C, 0x430, 0x43B, 0x438, 0x437, 0x430, 0x446, 0x438,
      0x438, 0x3A, 0x20, 0x432, 0x430, 0x440, 0x438, 0x430, 0x442, 0x438, 0x432, 0x43D,
      0x43E, 0x441, 0x442, 0x44C, 0x20, 0x43F, 0x43E, 0x20, 0x440, 0x430, 0x437, 0x43C,
      0x435, 0x440, 0x443]"  \<comment> \<open>Ne podlezhit normalizatsii: variativnost' po razmeru\<close>

definition reason_variability :: ustr where
  "reason_variability =
     [0x41D, 0x435, 0x20, 0x43F, 0x43E, 0x434, 0x43B, 0x435, 0x436, 0x438, 0x442, 0x20,
      0x43D, 0x43E, 0x440, 0x43C, 0x430, 0x43B, 0x438, 0x437, 0x430, 0x446, 0x438,
      0x438, 0x3A, 0x20, 0x432, 0x430, 0x440, 0x438, 0x430, 0x442, 0x438, 0x432, 0x43D,
      0x43E, 0x441, 0x442, 0x44C, 0x20, 0x445, 0x430, 0x440, 0x430, 0x43A, 0x442,
      0x435, 0x440, 0x438, 0x441, 0x442, 0x438, 0x43A]"  \<comment> \<open>Ne podlezhit normalizatsii: variativnost' kharakteristik\<close>

definition reason_specs :: ustr where
  "reason_specs =
     [0x41D, 0x435, 0x20, 0x43F, 0x43E, 0x434, 0x43B, 0x435, 0x436, 0x438, 0x442, 0x20,
      0x43D, 0x43E, 0x440, 0x43C, 0x430, 0x43B, 0x438, 0x437, 0x430, 0x446, 0x438,
      0x438, 0x3A, 0x20, 0x43D, 0x435, 0x43F, 0x43E, 0x43B, 0x43D, 0x44B, 0x435, 0x20,
      0x442, 0x435, 0x445, 0x43D, 0x438, 0x447, 0x435, 0x441, 0x43A, 0x438, 0x435,
      0x20, 0x445, 0x430, 0x440, 0x430, 0x43A, 0x442, 0x435, 0x440, 0x438, 0x441,
      0x442, 0x438, 0x43A, 0x438]"  \<comment> \<open>Ne podlezhit normalizatsii: nepolnye tekhnicheskie kharakteristiki\<close>

definition word_okpd2 :: ustr where
  "word_okpd2 =
     [0x41E, 0x41A, 0x41F, 0x414, 0x32]"  \<comment> \<open>OKPD2\<close>

definition word_manufacturer :: ustr where
  "word_manufacturer =
     [0x43F, 0x440, 0x43E, 0x438, 0x437, 0x432, 0x43E, 0x434, 0x438, 0x442, 0x435,
      0x43B]"  \<comment> \<open>proizvoditel\<close>

definition word_variability :: ustr where
  "word_variability =
     [0x432, 0x430, 0x440, 0x438, 0x430, 0x442, 0x438, 0x432, 0x43D, 0x43E, 0x441,
      0x442, 0x44C]"  \<comment> \<open>variativnost'\<close>

definition word_color :: ustr where
  "word_color =
     [0x446, 0x432, 0x435, 0x442]"  \<comment> \<open>tsvet\<close>

definition word_diameter :: ustr where
  "word_diameter =
     [0x434, 0x438, 0x430, 0x43C, 0x435, 0x442, 0x440]"  \<comment> \<open>diametr\<close>

definition word_size :: ustr where
  "word_size =
     [0x440, 0x430, 0x437, 0x43C, 0x435, 0x440]"  \<comment> \<open>razmer\<close>

definition word_specs :: ustr where
  "word_specs =
     [0x445, 0x430, 0x440, 0x430, 0x43A, 0x442, 0x435, 0x440, 0x438, 0x441, 0x442,
      0x438, 0x43A]"  \<comment> \<open>kharakteristik\<close>

subsection \<open>The checks\<close>

text \<open>
  The classification result reaches the agent as the dict of an \<open>OKPD2Result\<close>; the checks
  read it with \<open>.get\<close> and a default, so each key may be absent. \<open>None\<close> and the empty
  dict are both false, and are both \<open>None\<close> here.
\<close>

record okpd2_dict =
  od_code :: "ustr option"
  od_level :: "int option"
  od_confidence :: "rat option"

text \<open>The pattern \<open>^\d{2}\.\d{2}\.\d{2}(\.\d{3})?$\<close>.\<close>

definition okpd2_pattern :: rx where
  "okpd2_pattern =
     RSeq (rx_two (RAtom Digit)) (RSeq (lit (asc ''.''))
       (RSeq (rx_two (RAtom Digit)) (RSeq (lit (asc ''.''))
         (RSeq (rx_two (RAtom Digit))
           (rx_opt (RSeq (lit (asc ''.'')) (rx_three (RAtom Digit))))))))"

definition is_valid_okpd2_format :: "ustr \<Rightarrow> bool" where
  "is_valid_okpd2_format c = re_match_anchored okpd2_pattern c"

definition validate_okpd2 :: "okpd2_dict option \<Rightarrow> ProductCategory \<Rightarrow> py_error + ustr list" where
  "validate_okpd2 okpd2_result cat =
     (case okpd2_result of
        None \<Rightarrow> Inr [msg_okpd2_missing]
      | Some d \<Rightarrow>
          (let c = (case od_code d of Some c \<Rightarrow> c | None \<Rightarrow> []);
               issues1 = (if \<not> is_valid_okpd2_format c then [msg_okpd2_format @ c] else []);
               lvl = (case od_level d of Some l \<Rightarrow> l | None \<Rightarrow> 0);
               issues2 = issues1 @
                 (if lvl < 3 then [msg_okpd2_level @ str_of_int lvl @ asc '')''] else []);
               conf = (case od_confidence d of Some x \<Rightarrow> x | None \<Rightarrow> 0);
               issues3 = issues2 @
                 (if conf < 0.5 then [msg_okpd2_confidence @ format_2f conf @ asc '')''] else [])
           in
           if dict_has_key PRODUCT_CATEGORIES (EnumKey cat) then
             (case dict_get PRODUCT_CATEGORIES (category_value cat) of
                Inl e \<Rightarrow> Inl e
              | Inr cfg \<Rightarrow>
                  if \<not> startswith c (okpd2_prefix cfg) then
                    Inr (issues3 @ [msg_okpd2_code @ c @ msg_not_of_category @ category_value cat])
                  else Inr issues3)
           else Inr issues3))"

text \<open>Truth of a value, as \<open>not v\<close> and \<open>if v\<close> test it.\<close>

fun truthy :: "jval \<Rightarrow> bool" where
  "truthy JNull = False"
| "truthy (JBool b) = b"
| "truthy (JNum x) = (x \<noteq> 0)"
| "truthy (JStr s) = (s \<noteq> [])"
| "truthy (JArr xs) = (xs \<noteq> [])"
| "truthy (JObj kvs) = (kvs \<noteq> [])"

definition placeholder_patterns :: "ustr list" where
  "placeholder_patterns =
     [[0x43D, 0x2F, 0x434],  \<comment> \<open>n/d\<close>
      asc ''n/a'',
      [0x43D, 0x435, 0x438, 0x437, 0x432, 0x435, 0x441, 0x442, 0x43D, 0x43E],  \<comment> \<open>neizvestno\<close>
      asc ''unknown'', asc ''-'', []]"

text \<open>
  \<open>str(spec_value).lower() in placeholder_patterns\<close>. For a string, \<open>str\<close> is the string
  itself. For any other value \<open>str\<close> gives \<open>None\<close>, \<open>True\<close>, \<open>False\<close>, a numeral with
  at least one digit, or a bracketed list or dict, and none of these is a placeholder.
\<close>

fun is_placeholder :: "jval \<Rightarrow> bool" where
  "is_placeholder (JStr s) = (lower s \<in> set placeholder_patterns)"
| "is_placeholder v = False"

definition validate_specifications ::
  "research_dict option \<Rightarrow> ProductCategory \<Rightarrow> Product \<Rightarrow> ustr list" where
  "validate_specifications research_result cat product =
     (case research_result of
        None \<Rightarrow> [msg_specs_missing]
      | Some rd \<Rightarrow>
          (let specs = rd_specifications rd in
           case validation_criteria cat of
             None \<Rightarrow> [msg_no_criteria]
           | Some crit \<Rightarrow>
               (let missing_required =
                      filter (\<lambda>req. case map_of specs req of None \<Rightarrow> True | Some v \<Rightarrow> \<not> truthy v)
                        (required_specs crit);
                    issues1 = (if missing_required \<noteq> []
                               then [msg_required_missing @ join (asc '', '') missing_required]
                               else []);
                    min_count = min_specs_count crit;
                    actual_count = length (filter truthy (map snd specs));
                    issues2 = issues1 @
                      (if actual_count < min_count
                       then [msg_too_few_specs @ str_of_nat actual_count @ msg_of_minimum
                               @ str_of_nat min_count @ asc '')'']
                       else []);
                    placeholders_found = map fst (filter (\<lambda>kv. is_placeholder (snd kv)) specs)
                in
                issues2 @
                  (if placeholders_found \<noteq> []
                   then [msg_placeholders @ join (asc '', '') placeholders_found]
                   else []))))"

definition validate_unit :: "Product \<Rightarrow> ProductCategory \<Rightarrow> ustr option" where
  "validate_unit product cat =
     (case validation_criteria cat of
        None \<Rightarrow> None
      | Some crit \<Rightarrow>
          (let valid_units = unit_options crit in
           if lower (original_unit product) \<notin> set (map lower valid_units) then
             Some (msg_unit @ original_unit product @ msg_unit_not_of_category
                   @ category_value cat @ msg_expected @ join (asc '', '') valid_units)
           else None))"

text \<open>
  The colour patterns \<open>artikul.*tsvet\<close>, \<open>article.*color\<close>, \<open>kod.*tsvet\<close> and
  \<open>razlich.*tsvet\<close> (the Russian ones in Cyrillic), searched with \<open>re.IGNORECASE\<close>.
\<close>

definition color_patterns :: "rx list" where
  "color_patterns =
     [RSeq (ilit [0x430, 0x440, 0x442, 0x438, 0x43A, 0x443, 0x43B]) (RSeq any_star (ilit [0x446, 0x432, 0x435, 0x442])),
      RSeq (ilit (asc ''article'')) (RSeq any_star (ilit (asc ''color''))),
      RSeq (ilit [0x43A, 0x43E, 0x434]) (RSeq any_star (ilit [0x446, 0x432, 0x435, 0x442])),
      RSeq (ilit [0x440, 0x430, 0x437, 0x43B, 0x438, 0x447]) (RSeq any_star (ilit [0x446, 0x432, 0x435, 0x442]))]"

definition range_separators :: "ustr list" where
  "range_separators =
     [asc ''-'',
      [0x434, 0x43E],  \<comment> \<open>do\<close>
      [0x43E, 0x442]]  \<comment> \<open>ot\<close>"

definition size_fields :: "ustr list" where
  "size_fields = [asc ''diameter'', asc ''width'', asc ''length'', asc ''size'']"

text \<open>\<open>specs.get(field, "")\<close> is a string holding one of the separators.\<close>

definition has_range :: "(ustr \<times> jval) list \<Rightarrow> ustr \<Rightarrow> bool" where
  "has_range specs field =
     (case map_of specs field of
        None \<Rightarrow> False
      | Some (JStr v) \<Rightarrow> list_ex (\<lambda>sep. contains sep v) range_separators
      | Some _ \<Rightarrow> False)"

definition check_variability :: "Product \<Rightarrow> research_dict option \<Rightarrow> ustr list" where
  "check_variability product research_result =
     (if list_ex (\<lambda>pattern. re_search pattern (original_name product)) color_patterns
      then [msg_color_variability] else [])
     @ (case research_result of
          None \<Rightarrow> []
        | Some rd \<Rightarrow>
            map (\<lambda>field. msg_parameter_variability @ field)
              (filter (has_range (rd_specifications rd)) size_fields))"

definition generic_terms :: "ustr list" where
  "generic_terms =
     [[0x43F, 0x440, 0x43E, 0x447, 0x438, 0x435],  \<comment> \<open>prochie\<close>
      [0x434, 0x440, 0x443, 0x433, 0x438, 0x435],  \<comment> \<open>drugie\<close>
      [0x440, 0x430, 0x437, 0x43D, 0x44B, 0x435],  \<comment> \<open>raznye\<close>
      asc ''various'', asc ''other'', asc ''misc'']"

definition unknown_manufacturers :: "ustr list" where
  "unknown_manufacturers =
     [asc ''unknown'',
      [0x43D, 0x435, 0x438, 0x437, 0x432, 0x435, 0x441, 0x442, 0x43D, 0x43E]]  \<comment> \<open>neizvestno\<close>"

definition apply_business_rules ::
  "Product \<Rightarrow> research_dict option \<Rightarrow> okpd2_dict option \<Rightarrow> ustr list" where
  "apply_business_rules product research_result okpd2_result =
     (case research_result of
        None \<Rightarrow> []
      | Some rd \<Rightarrow>
          (case rd_manufacturer rd of
             None \<Rightarrow> [msg_manufacturer]
           | Some m \<Rightarrow>
               if m = [] \<or> lower m \<in> set unknown_manufacturers then [msg_manufacturer] else []))
     @ (case research_result of
          None \<Rightarrow> []
        | Some rd \<Rightarrow>
            (case rd_model rd of
               None \<Rightarrow> []
             | Some m \<Rightarrow> if m \<noteq> [] \<and> length m < 3 then [msg_model_short] else []))
     @ (if list_ex (\<lambda>term. contains term (lower (original_name product))) generic_terms
        then [msg_generic] else [])"

text \<open>\<open>issues[0]\<close> raises IndexError on an empty list.\<close>

definition determine_rejection_reason :: "ustr list \<Rightarrow> Product \<Rightarrow> py_error + ustr" where
  "determine_rejection_reason issues_list product =
     (if list_ex (\<lambda>issue. contains word_okpd2 issue) issues_list then Inr reason_okpd2
      else if list_ex (\<lambda>issue. contains word_manufacturer (lower issue)) issues_list
        then Inr reason_manufacturer
      else if list_ex (\<lambda>issue. contains word_variability issue) issues_list then
        (if contains word_color (join (asc '' '') issues_list) then Inr reason_color
         else if contains word_diameter (join (asc '' '') issues_list)
                 \<or> contains word_size (join (asc '' '') issues_list)
           then Inr reason_size
         else Inr reason_variability)
      else if list_ex (\<lambda>issue. contains word_specs issue) issues_list then Inr reason_specs
      else (case issues_list of
              [] \<Rightarrow> Inl IndexError
            | first # _ \<Rightarrow> Inr (rejection_marker @ first)))"

definition suggestion_ask_supplier :: ustr where
  "suggestion_ask_supplier =
     [0x423, 0x442, 0x43E, 0x447, 0x43D, 0x438, 0x442, 0x44C, 0x20, 0x438, 0x43D,
      0x444, 0x43E, 0x440, 0x43C, 0x430, 0x446, 0x438, 0x44E, 0x20, 0x443, 0x20, 0x43F,
      0x43E, 0x441, 0x442, 0x430, 0x432, 0x449, 0x438, 0x43A, 0x430]"  \<comment> \<open>Utochnit' informatsiyu u postavshchika\<close>

definition suggestion_check_catalogue :: ustr where
  "suggestion_check_catalogue =
     [0x41F, 0x440, 0x43E, 0x432, 0x435, 0x440, 0x438, 0x442, 0x44C, 0x20, 0x43A,
      0x430, 0x442, 0x430, 0x43B, 0x43E, 0x433, 0x20, 0x43F, 0x440, 0x43E, 0x438,
      0x437, 0x432, 0x43E, 0x434, 0x438, 0x442, 0x435, 0x43B, 0x44F]"  \<comment> \<open>Proverit' katalog proizvoditelya\<close>

text \<open>
  \<open>_generate_suggestions\<close> asks the language model. The model is outside the program: its
  answer to a product and its issues is the parameter \<open>llm\<close>, \<open>None\<close> when the call
  fails after its retries. The answer is cut into its non-blank lines, stripped, and the
  first three are kept; a failed call gives the two fixed suggestions.
\<close>

type_synonym suggestion_oracle = "Product \<Rightarrow> ustr list \<Rightarrow> ustr option"

definition generate_suggestions ::
  "suggestion_oracle \<Rightarrow> Product \<Rightarrow> ustr list \<Rightarrow> research_dict option \<Rightarrow> ustr list" where
  "generate_suggestions llm product issues_list research_result =
     (case llm product issues_list of
        None \<Rightarrow> [suggestion_ask_supplier, suggestion_check_catalogue]
      | Some response \<Rightarrow>
          take 3 (filter (\<lambda>s. s \<noteq> []) (map strip (split_on 0x0A response))))"

text \<open>\<open>QualityValidationAgent.process\<close> on the four entries of its context.\<close>

definition validation_process ::
  "suggestion_oracle \<Rightarrow> Product \<Rightarrow> research_dict option \<Rightarrow> okpd2_dict option
     \<Rightarrow> ProductCategory \<Rightarrow> py_error + ValidationResult" where
  "validation_process llm product research_result okpd2_result cat =
     (let issues0 = (if cat = UNKNOWN then [msg_category_unknown] else []) in
      case validate_okpd2 okpd2_result cat of
        Inl e \<Rightarrow> Inl e
      | Inr okpd2_issues \<Rightarrow>
          (let issues1 = issues0 @ okpd2_issues;
               issues2 = issues1 @ validate_specifications research_result cat product;
               issues3 = issues2 @ (case validate_unit product cat of
                                       Some unit_issue \<Rightarrow> [unit_issue]
                                     | None \<Rightarrow> []);
               issues4 = issues3 @ check_variability product research_result;
               issues5 = issues4 @ apply_business_rules product research_result okpd2_result;
               valid = (length issues5 = 0)
           in
           if \<not> valid then
             (case determine_rejection_reason issues5 product of
                Inl e \<Rightarrow> Inl e
              | Inr reason \<Rightarrow>
                  Inr \<lparr>is_valid = valid, issues = issues5, rejection_reason = Some reason,
                       suggestions = generate_suggestions llm product issues5 research_result\<rparr>)
           else
             Inr \<lparr>is_valid = valid, issues = issues5, rejection_reason = None,
                  suggestions = []\<rparr>))"

text \<open>The six fixed reasons that \<open>_determine_rejection_reason\<close> can return.\<close>

definition canonical_reasons :: "ustr list" where
  "canonical_reasons =
     [reason_okpd2, reason_manufacturer, reason_color, reason_size, reason_variability,
      reason_specs]"

text \<open>Examples: a hammer with a complete research result and classification.\<close>

definition hammer_research :: research_dict where
  "hammer_research =
     \<lparr>rd_manufacturer = Some (asc ''Stanley''), rd_model = Some (asc ''STHT-51309''),
      rd_specifications =
        [(asc ''striker_weight_kg'', JStr (asc ''0.5'')), (asc ''length_mm'', JNum 320),
         (asc ''type'', JStr (asc ''claw'')), (asc ''handle_material'', JStr (asc ''wood''))],
      rd_product_type = None\<rparr>"

definition hammer_okpd2 :: okpd2_dict where
  "hammer_okpd2 =
     \<lparr>od_code = Some (asc ''25.73.30.123''), od_level = Some 4, od_confidence = Some 0.9\<rparr>"

section \<open>Category detector (src/utils/category_detector.py)\<close>

text \<open>
  \<open>_compile_patterns\<close>: the patterns of each category, all compiled with
  \<open>re.IGNORECASE\<close>; the dict is keyed by the enum members. The Cyrillic literals of the
  patterns are, in order of appearance: datchik, davlen, preobrazovatel', PD, OVEN, MPa, kPa,
  bar; krug, stal', prokat, goryachekatan, GOST, mm; molot, slesarn, elektromontazh, kg,
  rukoyat; shin, a, y, rezin, koles, pokrysh, zimn, letn, vsesezon, Kama.
\<close>

definition digits :: rx where
  "digits = rx_plus (RAtom Digit)"

definition spaces :: rx where
  "spaces = RStar (RAtom Space)"

fun patterns :: "ProductCategory \<Rightarrow> rx list option" where
  "patterns PRESSURE_SENSOR = Some
     [RSeq (ilit [0x434, 0x430, 0x442, 0x447, 0x438, 0x43A]) (RSeq any_star (ilit [0x434, 0x430, 0x432, 0x43B, 0x435,
                                                    0x43D])),
      RSeq (ilit (asc ''pressure'')) (RSeq spaces (ilit (asc ''sensor''))),
      RSeq (ilit [0x43F, 0x440, 0x435, 0x43E, 0x431, 0x440, 0x430, 0x437, 0x43E,
                   0x432, 0x430, 0x442, 0x435, 0x43B, 0x44C])
        (RSeq any_star (ilit [0x434, 0x430, 0x432, 0x43B, 0x435, 0x43D])),
      RSeq (ilit [0x41F, 0x414]) digits,
      RSeq (alts [ilit (asc ''Endress+Hauser''), ilit [0x41E, 0x412, 0x415, 0x41D],
                  ilit (asc ''Danfoss''), ilit (asc ''Siemens'')])
        (RSeq any_star (ilit [0x434, 0x430, 0x432, 0x43B, 0x435, 0x43D])),
      alts [ilit (asc ''PMP''), ilit (asc ''PMC''), ilit (asc ''PTP''), ilit (asc ''CeraBar''),
            ilit (asc ''Deltabar'')],
      RSeq digits (RSeq spaces
        (alts [ilit [0x41C, 0x41F, 0x430], ilit (asc ''MPa''), ilit [0x43A, 0x41F, 0x430],
               ilit (asc ''kPa''), ilit [0x431, 0x430, 0x440], ilit (asc ''bar'')]))]"
| "patterns STEEL_CIRCLE = Some
     [RSeq (ilit [0x43A, 0x440, 0x443, 0x433]) (RSeq any_star (ilit [0x441, 0x442, 0x430, 0x43B, 0x44C])),
      RSeq (ilit (asc ''steel'')) (RSeq any_star (ilit (asc ''circle''))),
      RSeq (ilit [0x43F, 0x440, 0x43E, 0x43A, 0x430, 0x442]) (RSeq any_star (ilit [0x43A, 0x440, 0x443, 0x433])),
      RSeq (ilit [0x433, 0x43E, 0x440, 0x44F, 0x447, 0x435, 0x43A, 0x430, 0x442,
                   0x430, 0x43D])
        (RSeq any_star (ilit [0x43A, 0x440, 0x443, 0x433])),
      RSeq (ilit [0x413, 0x41E, 0x421, 0x422]) (RSeq spaces (ilit (asc ''2590''))),
      RSeq digits (RSeq spaces (RSeq (ilit [0x43C, 0x43C])
        (RSeq any_star (ilit [0x441, 0x442, 0x430, 0x43B, 0x44C])))),
      RSeq (ilit [0x441, 0x442, 0x430, 0x43B, 0x44C]) (RSeq any_star digits)]"
| "patterns HAMMER = Some
     [ilit [0x43C, 0x43E, 0x43B, 0x43E, 0x442],
      ilit (asc ''hammer''),
      RSeq (ilit [0x441, 0x43B, 0x435, 0x441, 0x430, 0x440, 0x43D]) (RSeq any_star (ilit [0x43C, 0x43E, 0x43B, 0x43E, 0x442])),
      RSeq (ilit [0x44D, 0x43B, 0x435, 0x43A, 0x442, 0x440, 0x43E, 0x43C, 0x43E,
                   0x43D, 0x442, 0x430, 0x436])
        (RSeq any_star (ilit [0x43C, 0x43E, 0x43B, 0x43E, 0x442])),
      RSeq digits (RSeq spaces (RSeq (alts [ilit [0x43A, 0x433], ilit (asc ''kg'')])
        (RSeq any_star (ilit [0x43C, 0x43E, 0x43B, 0x43E, 0x442])))),
      RSeq (ilit [0x440, 0x443, 0x43A, 0x43E, 0x44F, 0x442]) (RSeq any_star (ilit [0x43C, 0x43E, 0x43B, 0x43E, 0x442])),
      alts [ilit (asc ''Stanley''), ilit (asc ''Gross''), ilit (asc ''Matrix''),
            ilit (asc ''Sparta'')]]"
| "patterns TIRE = Some
     [RSeq (ilit [0x448, 0x438, 0x43D]) (alts [ilit [0x430], ilit [0x44B]]),
      ilit (asc ''tire''),
      RSeq (ilit [0x440, 0x435, 0x437, 0x438, 0x43D]) (RSeq any_star (ilit [0x43A, 0x43E, 0x43B, 0x435, 0x441])),
      ilit [0x43F, 0x43E, 0x43A, 0x440, 0x44B, 0x448],
      RSeq (rx_three (RAtom Digit)) (RSeq (ilit (asc ''/'')) (RSeq (rx_two (RAtom Digit))
        (RSeq spaces (RSeq (ilit (asc ''R'')) (rx_two (RAtom Digit)))))),
      alts [ilit [0x437, 0x438, 0x43C, 0x43D], ilit [0x43B, 0x435, 0x442, 0x43D], ilit [0x432, 0x441, 0x435, 0x441, 0x435,
                                                 0x437, 0x43E, 0x43D]],
      alts [ilit (asc ''Nokian''), ilit (asc ''Michelin''), ilit (asc ''Bridgestone''),
            ilit (asc ''Continental''), ilit [0x41A, 0x430, 0x43C, 0x430], ilit (asc ''BFGoodrich'')],
      alts [ilit (asc ''Hakkapeliitta''), ilit (asc ''Pilot''), ilit (asc ''Turanza'')]]"
| "patterns UNKNOWN = None"

text \<open>
  \<open>_normalize_text\<close>. First every run of whitespace becomes one space; then every
  character outside \<open>[\w\s\-\+/\.\,]\<close> and the Cyrillic range U+0410 .. U+044F becomes a
  space; then the text is stripped. The word characters \<open>\w\<close> are the letters and digits
  of Basic Latin, the underscore, and the letters U+0400 .. U+045F of the Cyrillic block.
\<close>

fun collapse_acc :: "bool \<Rightarrow> ustr \<Rightarrow> ustr" where
  "collapse_acc in_run [] = []"
| "collapse_acc in_run (c # s) =
     (if is_space c then (if in_run then collapse_acc True s else 0x20 # collapse_acc True s)
      else c # collapse_acc False s)"

definition collapse_ws :: "ustr \<Rightarrow> ustr" where
  "collapse_ws s = collapse_acc False s"

definition is_word :: "nat \<Rightarrow> bool" where
  "is_word c =
     ((0x30 \<le> c \<and> c \<le> 0x39) \<or> (0x41 \<le> c \<and> c \<le> 0x5A) \<or> c = 0x5F
      \<or> (0x61 \<le> c \<and> c \<le> 0x7A) \<or> (0x400 \<le> c \<and> c \<le> 0x45F))"

definition is_kept :: "nat \<Rightarrow> bool" where
  "is_kept c =
     (is_word c \<or> is_space c \<or> c = 0x2D \<or> c = 0x2B \<or> c = 0x2F \<or> c = 0x2E \<or> c = 0x2C
      \<or> (0x410 \<le> c \<and> c \<le> 0x44F))"

definition normalize_text :: "ustr \<Rightarrow> ustr" where
  "normalize_text text =
     strip (map (\<lambda>c. if is_kept c then c else 0x20) (collapse_ws text))"

text \<open>\<open>CategoryDetector._calculate_category_score\<close>.\<close>

definition calculate_category_score :: "ustr \<Rightarrow> ProductCategory \<Rightarrow> rat" where
  "calculate_category_score text cat =
     (let score1 = (case patterns cat of
                      Some ps \<Rightarrow>
                        0 + of_nat (length (filter (\<lambda>pattern. re_search pattern text) ps)) * 0.3
                    | None \<Rightarrow> 0);
          score2 = (case map_of PRODUCT_CATEGORIES (category_value cat) of
                      Some cfg \<Rightarrow>
                        score1 + of_nat (length (filter
                            (\<lambda>keyword. contains (lower keyword) (lower text))
                            (cfg_keywords cfg))) * 0.2
                    | None \<Rightarrow> score1)
      in min score2 1.0)"

text \<open>
  \<open>SmartCategoryDetector._calculate_category_score\<close>, over the learned patterns of the
  detector, a dict from category to phrases that only \<open>learn_from_correction\<close> fills.
\<close>

definition smart_calculate_category_score ::
  "(ProductCategory \<Rightarrow> ustr list option) \<Rightarrow> ustr \<Rightarrow> ProductCategory \<Rightarrow> rat" where
  "smart_calculate_category_score learned_patterns text cat =
     (let score = calculate_category_score text cat in
      case learned_patterns cat of
        Some phrases \<Rightarrow>
          min (score + of_nat (length (filter (\<lambda>pattern. contains pattern (lower text)) phrases))
                 * 0.1) 1.0
      | None \<Rightarrow> min score 1.0)"

text \<open>
  \<open>max(scores, key=scores.get)\<close>: the first key, in insertion order, whose score is the
  greatest.
\<close>

fun max_first :: "('k \<times> rat) \<Rightarrow> ('k \<times> rat) list \<Rightarrow> ('k \<times> rat)" where
  "max_first best [] = best"
| "max_first best (x # xs) = (if snd x > snd best then max_first x xs else max_first best xs)"

text \<open>
  \<open>detect_category\<close>, over the scoring method of the detector's class. The loop scores
  the members of \<open>ProductCategory\<close> in declaration order and skips UNKNOWN.
\<close>

definition detect_category_with ::
  "(ustr \<Rightarrow> ProductCategory \<Rightarrow> rat) \<Rightarrow> ustr \<Rightarrow> ProductCategory \<times> rat" where
  "detect_category_with score_fn nm =
     (if nm = [] then (UNKNOWN, 0.0)
      else
        (let normalized = normalize_text nm;
             scores = map (\<lambda>cat. (cat, score_fn normalized cat))
                        (filter (\<lambda>cat. cat \<noteq> UNKNOWN) all_categories)
         in case scores of
              [] \<Rightarrow> (UNKNOWN, 0.0)
            | first # others \<Rightarrow>
                (let (best_category, conf) = max_first first others in
                 if conf < 0.3 then (UNKNOWN, conf) else (best_category, conf))))"

definition detect_category :: "ustr \<Rightarrow> ProductCategory \<times> rat" where
  "detect_category = detect_category_with calculate_category_score"

definition smart_detect_category ::
  "(ProductCategory \<Rightarrow> ustr list option) \<Rightarrow> ustr \<Rightarrow> ProductCategory \<times> rat" where
  "smart_detect_category learned_patterns =
     detect_category_with (smart_calculate_category_score learned_patterns)"

section \<open>Processor (src/processors/mtr_processor.py)\<close>

text \<open>
  The research agent and the candidate search of the classifier agent call a language
  model and the web. They are outside the program, so their answers are parameters of the
  pipeline: what the research agent returns for a product and a category, what
  \<open>_search_okpd2_codes\<close> returns for the search terms made from a product, a category
  and a research result, and what the model answers when asked for suggestions. Each may
  raise, which is the \<open>Inl\<close> value; an answer of the wrong shape raises inside the
  pipeline as well and is an \<open>Inl\<close> value too.
\<close>

record oracles =
  research :: "Product \<Rightarrow> ProductCategory \<Rightarrow> py_error + ResearchResult"
  search_okpd2_codes ::
    "Product \<Rightarrow> ProductCategory \<Rightarrow> research_dict option \<Rightarrow> py_error + candidate list"
  suggest :: suggestion_oracle

text \<open>
  \<open>research_result.__dict__\<close> and \<open>okpd2_result.__dict__\<close>. The dict of a research
  result has no key \<open>product_type\<close>.
\<close>

definition dict_of_research :: "ResearchResult \<Rightarrow> research_dict" where
  "dict_of_research r =
     \<lparr>rd_manufacturer = manufacturer r, rd_model = model r,
      rd_specifications = rr_specifications r, rd_product_type = None\<rparr>"

definition dict_of_okpd2 :: "OKPD2Result \<Rightarrow> okpd2_dict" where
  "dict_of_okpd2 r =
     \<lparr>od_code = Some (code r), od_level = Some (level r), od_confidence = Some (confidence r)\<rparr>"

text \<open>\<open>OKPD2ClassifierAgent.process\<close>: search, then select.\<close>

definition okpd2_agent_process ::
  "oracles \<Rightarrow> Product \<Rightarrow> ProductCategory \<Rightarrow> research_dict option \<Rightarrow> py_error + OKPD2Result" where
  "okpd2_agent_process orc product cat research_result =
     (case search_okpd2_codes orc product cat research_result of
        Inl e \<Rightarrow> Inl e
      | Inr candidate_codes \<Rightarrow> select_best_code candidate_codes product cat research_result)"

text \<open>\<open>COMPLIANCE_RULES["unit_validation"]\<close> and the \<open>unit_keys\<close> of the processor.\<close>

definition unit_validation :: "(ustr \<times> ustr list) list" where
  "unit_validation =
     [([0x434, 0x430, 0x442, 0x447, 0x438, 0x43A],  \<comment> \<open>datchik\<close>
       [[0x448, 0x442, 0x443, 0x43A, 0x430], [0x448, 0x442], [0x448, 0x442, 0x2E]]),
      ([0x43A, 0x440, 0x443, 0x433],  \<comment> \<open>krug\<close>
       [[0x442, 0x43E, 0x43D, 0x43D, 0x430], [0x442], [0x442, 0x43D]]),
      ([0x43C, 0x43E, 0x43B, 0x43E, 0x442, 0x43E, 0x43A],  \<comment> \<open>molotok\<close>
       [[0x448, 0x442, 0x443, 0x43A, 0x430], [0x448, 0x442], [0x448, 0x442, 0x2E]]),
      ([0x448, 0x438, 0x43D, 0x430],  \<comment> \<open>shina\<close>
       [[0x448, 0x442, 0x443, 0x43A, 0x430], [0x448, 0x442], [0x448, 0x442, 0x2E]])]"

fun unit_keys :: "ProductCategory \<Rightarrow> ustr option" where
  "unit_keys PRESSURE_SENSOR = Some [0x434, 0x430, 0x442, 0x447, 0x438, 0x43A]"
| "unit_keys STEEL_CIRCLE = Some [0x43A, 0x440, 0x443, 0x433]"
| "unit_keys HAMMER = Some [0x43C, 0x43E, 0x43B, 0x43E, 0x442, 0x43E, 0x43A]"
| "unit_keys TIRE = Some [0x448, 0x438, 0x43D, 0x430]"
| "unit_keys UNKNOWN = None"

definition get_normalized_unit :: "Product \<Rightarrow> ProductCategory \<Rightarrow> ustr" where
  "get_normalized_unit product cat =
     (case unit_keys cat of
        None \<Rightarrow> original_unit product
      | Some unit_key \<Rightarrow>
          (case map_of unit_validation unit_key of
             None \<Rightarrow> original_unit product
           | Some valid_units \<Rightarrow>
               if lower (original_unit product) \<in> set (map lower valid_units)
               then hd valid_units
               else original_unit product))"

text \<open>\<open>d[k] = v\<close> on a dict in insertion order.\<close>

fun dict_set :: "'k \<Rightarrow> 'v \<Rightarrow> ('k \<times> 'v) list \<Rightarrow> ('k \<times> 'v) list" where
  "dict_set k v [] = [(k, v)]"
| "dict_set k v (kv # kvs) = (if fst kv = k then (k, v) # kvs else kv # dict_set k v kvs)"

definition comment_normalized :: ustr where
  "comment_normalized =
     [0x423, 0x441, 0x43F, 0x435, 0x448, 0x43D, 0x43E, 0x20, 0x43D, 0x43E, 0x440,
      0x43C, 0x430, 0x43B, 0x438, 0x437, 0x43E, 0x432, 0x430, 0x43D, 0x43E]"  \<comment> \<open>Uspeshno normalizovano\<close>

text \<open>
  The three agent calls of \<open>_process_single_product\<close>, each on the results of the ones
  before it. The first exception ends them.
\<close>

definition run_agents ::
  "oracles \<Rightarrow> Product \<Rightarrow> ProductCategory
     \<Rightarrow> py_error + (ResearchResult \<times> OKPD2Result \<times> ValidationResult)" where
  "run_agents orc product cat =
     (case research orc product cat of
        Inl e \<Rightarrow> Inl e
      | Inr research_result \<Rightarrow>
          (case okpd2_agent_process orc product cat (Some (dict_of_research research_result)) of
             Inl e \<Rightarrow> Inl e
           | Inr okpd2_result \<Rightarrow>
               (case validation_process (suggest orc) product
                       (Some (dict_of_research research_result))
                       (Some (dict_of_okpd2 okpd2_result)) cat of
                  Inl e \<Rightarrow> Inl e
                | Inr validation_result \<Rightarrow>
                    Inr (research_result, okpd2_result, validation_result))))"

text \<open>
  \<open>_process_single_product\<close>. The product is marked PROCESSING, the agents run, and the
  product takes their results; any exception is caught and leaves the product FAILED with
  the text of the exception.
\<close>

definition process_single_product :: "oracles \<Rightarrow> Product \<Rightarrow> ProductCategory \<Rightarrow> Product" where
  "process_single_product orc product0 cat =
     (let product = product0\<lparr>status := PROCESSING\<rparr> in
      case run_agents orc product cat of
        Inl e \<Rightarrow> product\<lparr>status := FAILED, error_message := Some (error_text e)\<rparr>
      | Inr (research_result, okpd2_result, validation_result) \<Rightarrow>
          (let specs0 = rr_specifications research_result;
               specs1 = (case manufacturer research_result of
                           None \<Rightarrow> specs0
                         | Some m \<Rightarrow> if m \<noteq> [] then dict_set (asc ''manufacturer'') (JStr m) specs0
                                     else specs0);
               specs2 = (case model research_result of
                           None \<Rightarrow> specs1
                         | Some m \<Rightarrow> if m \<noteq> [] then dict_set (asc ''model'') (JStr m) specs1
                                     else specs1);
               product1 = product\<lparr>specifications := specs2, okpd2_code := Some (code okpd2_result)\<rparr>;
               product2 = product1\<lparr>normalized_unit := Some (get_normalized_unit product1 cat)\<rparr>
           in
           if is_valid validation_result then
             product2\<lparr>status := COMPLETED, comment := Some comment_normalized\<rparr>
           else
             product2\<lparr>status := REJECTED, comment := rejection_reason validation_result,
                       error_message := Some (join (asc ''; '') (issues validation_result))\<rparr>))"

record ProcessingBatch =
  batch_id :: ustr
  products :: "Product list"
  batch_category :: ProductCategory
  total_count :: nat
  processed_count :: nat
  failed_count :: nat

text \<open>
  \<open>_categorize_products\<close>. A product whose category is UNKNOWN gets the category and
  the confidence that the detector gives its name; the processor's detector is a
  \<open>SmartCategoryDetector\<close> that has learned nothing. The products are then grouped in a
  dict from category to list, a category entering the dict when its first product comes.
\<close>

definition detect_if_unset :: "Product \<Rightarrow> Product" where
  "detect_if_unset product =
     (if category product = UNKNOWN then
        (let (cat, conf) = smart_detect_category (\<lambda>c. None) (original_name product) in
         product\<lparr>category := cat, confidence_score := conf\<rparr>)
      else product)"

fun dict_append :: "'k \<Rightarrow> 'v \<Rightarrow> ('k \<times> 'v list) list \<Rightarrow> ('k \<times> 'v list) list" where
  "dict_append k v [] = [(k, [v])]"
| "dict_append k v (kvs # rest) =
     (if fst kvs = k then (k, snd kvs @ [v]) # rest else kvs # dict_append k v rest)"

definition categorize_products :: "Product list \<Rightarrow> (ProductCategory \<times> Product list) list" where
  "categorize_products ps =
     foldl (\<lambda>categorized product0.
              let product = detect_if_unset product0
              in dict_append (category product) product categorized) [] ps"

text \<open>\<open>PROCESSING_CONFIG["batch_size"]\<close> and \<open>_create_batches\<close>.\<close>

definition batch_size :: nat where
  "batch_size = 10"

definition create_batches :: "Product list \<Rightarrow> ProductCategory \<Rightarrow> ProcessingBatch list" where
  "create_batches ps cat =
     map (\<lambda>i. let batch_products = take batch_size (drop i ps) in
               \<lparr>batch_id = category_value cat @ asc ''_'' @ str_of_nat (i div batch_size),
                products = batch_products, batch_category = cat,
                total_count = length batch_products, processed_count = 0, failed_count = 0\<rparr>)
         (map (\<lambda>k. k * batch_size) [0 ..< (length ps + batch_size - 1) div batch_size])"

text \<open>
  \<open>_process_batch\<close>. The products of a batch run as tasks, at most
  \<open>parallel_workers\<close> at a time, and \<open>asyncio.gather\<close> returns their results in the
  order of the tasks. A task touches its own product only and
  \<open>_process_single_product\<close> catches every exception, so each result is a product, the
  branch for a raised task is not taken, and the results are those of running the products
  one after another. The batch is returned with its counters.
\<close>

definition process_batch :: "oracles \<Rightarrow> ProcessingBatch \<Rightarrow> Product list \<times> ProcessingBatch" where
  "process_batch orc batch =
     (let results = map (\<lambda>product. process_single_product orc product (batch_category batch))
                      (products batch)
      in (results, batch\<lparr>processed_count := processed_count batch + length results\<rparr>))"

text \<open>
  The part of \<open>process_file\<close> between parsing and writing: categorize, then batch by
  batch for each category of the dict in turn, collecting the results.
\<close>

definition process_products :: "oracles \<Rightarrow> Product list \<Rightarrow> Product list" where
  "process_products orc ps =
     concat (map (\<lambda>(cat, category_products).
                    concat (map (\<lambda>batch. fst (process_batch orc batch))
                              (create_batches category_products cat)))
               (categorize_products ps))"

text \<open>
  Notions for stating the order of the results. \<open>firsts xs\<close> lists the elements of \<open>xs\<close>
  once each, in the order of their first occurrence, as the keys of a dict filled from
  \<open>xs\<close> are ordered; \<open>group_by_category ps\<close> lists the products category by category,
  the categories in the order of their first product and the products of a category in
  the order of \<open>ps\<close>.
\<close>

definition firsts :: "'a list \<Rightarrow> 'a list" where
  "firsts xs = rev (remdups (rev xs))"

definition group_by_category :: "Product list \<Rightarrow> Product list" where
  "group_by_category ps =
     concat (map (\<lambda>cat. filter (\<lambda>product. category product = cat) ps)
               (firsts (map category ps)))"

text \<open>The valid units of a category: its entry of \<open>unit_validation\<close> under its unit key.\<close>

definition category_units :: "ProductCategory \<Rightarrow> ustr list option" where
  "category_units cat =
     (case unit_keys cat of None \<Rightarrow> None | Some unit_key \<Rightarrow> map_of unit_validation unit_key)"

text \<open>
  Example answers of the agents: the research of the product with internal code \<open>B-2\<close>
  raises, the research of \<open>C-3\<close> finds the hammer above without its manufacturer, the
  research of any other product finds the hammer above, and the search finds one level-4
  candidate. The three example products are a hammer, a tire and a hammer again, with no
  category set.
\<close>

definition hammer_result :: ResearchResult where
  "hammer_result =
     \<lparr>product_name = asc ''hammer'', manufacturer = Some (asc ''Stanley''),
      model = Some (asc ''STHT-51309''),
      rr_specifications =
        [(asc ''striker_weight_kg'', JStr (asc ''0.5'')), (asc ''length_mm'', JNum 320),
         (asc ''type'', JStr (asc ''claw'')), (asc ''handle_material'', JStr (asc ''wood''))],
      sources = [], rr_confidence = 0.7\<rparr>"

definition example_oracles :: oracles where
  "example_oracles =
     \<lparr>research = (\<lambda>product cat.
         if internal_code product = asc ''B-2'' then Inl (Raised (asc ''timeout''))
         else if internal_code product = asc ''C-3'' then Inr (hammer_result\<lparr>manufacturer := None\<rparr>)
         else Inr hammer_result),
      search_okpd2_codes = (\<lambda>product cat research_result.
         Inr [\<lparr>cand_code = asc ''25.73.30.123'', cand_name = asc ''Hammers'',
               cand_level = Some 4\<rparr>]),
      suggest = (\<lambda>product issues_list. None)\<rparr>"

definition product_a :: Product where
  "product_a = example_product (asc ''A-1'') (asc ''hammer'') [0x428, 0x442] UNKNOWN"  \<comment> \<open>Sht\<close>

definition product_b :: Product where
  "product_b = example_product (asc ''B-2'') (asc ''tire'') [0x448, 0x442] UNKNOWN"  \<comment> \<open>sht\<close>

definition product_c :: Product where
  "product_c = example_product (asc ''C-3'') (asc ''hammer'') [0x448, 0x442] UNKNOWN"  \<comment> \<open>sht\<close>

definition product_d :: Product where
  "product_d = example_product (asc ''B-2'') (asc ''hammer'') [0x448, 0x442] UNKNOWN"  \<comment> \<open>sht\<close>

definition hammer_classification :: OKPD2Result where
  "hammer_classification =
     \<lparr>code = asc ''25.73.30.123'', name = asc ''Hammers'', level = 4,
      parent_code = Some (asc ''25.73.30''), confidence = 0.9, alternative_codes = []\<rparr>"

text \<open>The declared keywords of a category: \<open>PRODUCT_CATEGORIES[category.value]["keywords"]\<close>.\<close>

definition category_keywords :: "ProductCategory \<Rightarrow> ustr list" where
  "category_keywords cat =
     (case map_of PRODUCT_CATEGORIES (category_value cat) of
        Some cfg \<Rightarrow> cfg_keywords cfg
      | None \<Rightarrow> [])"

text \<open>
  Notions for stating what the detector returns: the categories it scores, and the greatest
  score that a scoring method gives the normalized name among them.
\<close>

definition known_categories :: "ProductCategory list" where
  "known_categories = [PRESSURE_SENSOR, STEEL_CIRCLE, HAMMER, TIRE]"

definition best_score :: "(ustr \<Rightarrow> ProductCategory \<Rightarrow> rat) \<Rightarrow> ustr \<Rightarrow> rat" where
  "best_score score_fn nm = Max (set (map (score_fn (normalize_text nm)) known_categories))"

section \<open>Properties of the OKPD2 selector\<close>

lemma enum_key_not_in_PRODUCT_CATEGORIES:
  "dict_has_key PRODUCT_CATEGORIES (EnumKey cat) = False"
  by (auto simp: dict_has_key_def)

text \<open>
  Claim C1. With an empty candidate list the selector is to return the category's default
  prefix at level 2 with confidence 0.3 for a known category, and \<open>00.00.00\<close> at level 1
  with confidence 0.1 for UNKNOWN. The code tests \<open>category in PRODUCT_CATEGORIES\<close> with
  the enum member, which is never a key of the string-keyed dict: for every category,
  HAMMER among them, the result is the unclassified one.
\<close>

theorem C1_empty_candidates_unclassified:
  "select_best_code [] product cat research_result =
     Inr \<lparr>code = asc ''00.00.00'', name = asc ''Unclassified product'', level = 1,
          parent_code = None, confidence = 0.1, alternative_codes = []\<rparr>"
  by (simp add: select_best_code_def enum_key_not_in_PRODUCT_CATEGORIES)

text \<open>Lowering a string commutes with splitting it into words.\<close>

lemma is_space_lower_cp: "is_space (lower_cp c) = is_space c"
  by (auto simp: is_space_def lower_cp_def)







section \<open>Properties of the validation agent\<close>

lemma startswith_iff: "startswith s p \<longleftrightarrow> (\<exists>v. s = p @ v)"
  by (induction s p rule: startswith.induct) auto

lemma contains_iff: "contains sub s \<longleftrightarrow> (\<exists>u v. s = u @ sub @ v)"
proof (induction s)
  case Nil
  show ?case by auto
next
  case (Cons c s)
  show ?case
  proof
    assume "contains sub (c # s)"
    then consider "startswith (c # s) sub" | "contains sub s" by auto
    then show "\<exists>u v. c # s = u @ sub @ v"
    proof cases
      case 1
      then obtain v where "c # s = sub @ v" by (auto simp: startswith_iff)
      then have "c # s = [] @ sub @ v" by simp
      then show ?thesis by blast
    next
      case 2
      then obtain u v where "s = u @ sub @ v" using Cons.IH by auto
      then have "c # s = (c # u) @ sub @ v" by simp
      then show ?thesis by blast
    qed
  next
    assume "\<exists>u v. c # s = u @ sub @ v"
    then obtain u v where e: "c # s = u @ sub @ v" by auto
    show "contains sub (c # s)"
    proof (cases u)
      case Nil
      with e have "startswith (c # s) sub" by (auto simp: startswith_iff)
      then show ?thesis by simp
    next
      case (Cons a u')
      with e have "s = u' @ sub @ v" by simp
      then have "contains sub s" using Cons.IH by blast
      then show ?thesis by simp
    qed
  qed
qed

lemma contains_middle: "contains sub (u @ sub @ v)"
  by (auto simp: contains_iff)

text \<open>
  Claim C4 says that, for a known category, a code that does not start with the category's
  expected prefix always yields the prefix-mismatch issue. The check is guarded by
  \<open>category in PRODUCT_CATEGORIES\<close> with the enum member, which is never a key: a
  well-formed level-4 code of the pressure sensors, with confidence 0.9, passes the
  classification checks of category HAMMER, whose expected prefix is \<open>25.73.30\<close>, without
  any issue.
\<close>

theorem C4_prefix_mismatch_not_reported:
  "expected_prefix HAMMER = Some (asc ''25.73.30'')
   \<and> \<not> startswith (asc ''26.51.52.110'') (asc ''25.73.30'')
   \<and> validate_okpd2
        (Some \<lparr>od_code = Some (asc ''26.51.52.110''), od_level = Some 4,
               od_confidence = Some 0.9\<rparr>) HAMMER = Inr []"
proof (intro conjI)
  show "expected_prefix HAMMER = Some (asc ''25.73.30'')"
    by (simp add: expected_prefix_def PRODUCT_CATEGORIES_def asc_def)
  show "\<not> startswith (asc ''26.51.52.110'') (asc ''25.73.30'')"
    by (simp add: asc_def)
  have "is_valid_okpd2_format (asc ''26.51.52.110'')"
    by (simp add: is_valid_okpd2_format_def re_match_anchored_def okpd2_pattern_def rx_two_def
        rx_three_def rx_opt_def asc_def is_digit_def)
  then show "validate_okpd2
        (Some \<lparr>od_code = Some (asc ''26.51.52.110''), od_level = Some 4,
               od_confidence = Some 0.9\<rparr>) HAMMER = Inr []"
    by (simp add: validate_okpd2_def enum_key_not_in_PRODUCT_CATEGORIES)
qed

text \<open>
  The classification checks without the dead branch: what \<open>_validate_okpd2\<close> returns for
  every input.
\<close>

lemma validate_okpd2_present:
  "validate_okpd2 (Some d) cat =
     Inr ((if \<not> is_valid_okpd2_format (case od_code d of Some c \<Rightarrow> c | None \<Rightarrow> [])
           then [msg_okpd2_format @ (case od_code d of Some c \<Rightarrow> c | None \<Rightarrow> [])] else [])
          @ (if (case od_level d of Some l \<Rightarrow> l | None \<Rightarrow> 0) < 3
             then [msg_okpd2_level @ str_of_int (case od_level d of Some l \<Rightarrow> l | None \<Rightarrow> 0)
                     @ asc '')''] else [])
          @ (if (case od_confidence d of Some x \<Rightarrow> x | None \<Rightarrow> 0) < 0.5
             then [msg_okpd2_confidence
                     @ format_2f (case od_confidence d of Some x \<Rightarrow> x | None \<Rightarrow> 0) @ asc '')'']
             else []))"
  by (simp add: validate_okpd2_def enum_key_not_in_PRODUCT_CATEGORIES Let_def)

lemma validate_okpd2_total: "\<exists>okpd2_issues. validate_okpd2 okpd2_result cat = Inr okpd2_issues"
  by (cases okpd2_result) (simp_all add: validate_okpd2_def enum_key_not_in_PRODUCT_CATEGORIES Let_def)

text \<open>Every issue of the classification checks mentions the classification code.\<close>

lemma word_okpd2_in_messages:
  "contains word_okpd2 msg_okpd2_missing"
  "contains word_okpd2 (msg_okpd2_format @ c)"
  "contains word_okpd2 (msg_okpd2_level @ t)"
  "contains word_okpd2 (msg_okpd2_confidence @ t)"
  by (simp_all add: word_okpd2_def msg_okpd2_missing_def msg_okpd2_format_def
      msg_okpd2_level_def msg_okpd2_confidence_def)

lemma validate_okpd2_issues_mention_code:
  assumes "validate_okpd2 okpd2_result cat = Inr okpd2_issues" and "issue \<in> set okpd2_issues"
  shows "contains word_okpd2 issue"
proof (cases okpd2_result)
  case None
  with assms show ?thesis
    by (auto simp: validate_okpd2_def word_okpd2_in_messages)
next
  case (Some d)
  with assms show ?thesis
    by (auto simp: validate_okpd2_present word_okpd2_in_messages split: if_splits)
qed

lemma manufacturer_issue_mentions_manufacturer:
  "contains word_manufacturer (lower msg_manufacturer)"
  by (simp add: word_manufacturer_def msg_manufacturer_def lower_def lower_cp_def)

text \<open>
  Claim C5. When some issue of the list mentions the classification code (it holds the
  word OKPD2 in Cyrillic, as every issue of the classification checks does) and some issue
  mentions the manufacturer, the rejection reason is the fixed classification-code reason,
  which is not the manufacturer reason.
\<close>

theorem C5_code_reason_beats_manufacturer:
  assumes "\<exists>issue \<in> set issues_list. contains word_okpd2 issue"
    and "\<exists>issue \<in> set issues_list. contains word_manufacturer (lower issue)"
  shows "determine_rejection_reason issues_list product = Inr reason_okpd2
         \<and> reason_okpd2 \<noteq> reason_manufacturer"
proof
  from assms(1) have "list_ex (\<lambda>issue. contains word_okpd2 issue) issues_list"
    by (simp add: list_ex_iff)
  then show "determine_rejection_reason issues_list product = Inr reason_okpd2"
    by (simp add: determine_rejection_reason_def)
  show "reason_okpd2 \<noteq> reason_manufacturer"
    by (simp add: reason_okpd2_def reason_manufacturer_def)
qed

theorem C5_code_reason_beats_manufacturer_witness:
  "(\<exists>issue \<in> set [msg_manufacturer, msg_okpd2_missing]. contains word_okpd2 issue)
   \<and> (\<exists>issue \<in> set [msg_manufacturer, msg_okpd2_missing].
         contains word_manufacturer (lower issue))
   \<and> determine_rejection_reason [msg_manufacturer, msg_okpd2_missing]
        (example_product (asc ''A-1'') (asc ''Hammer 500 g'') (asc ''pcs'') UNKNOWN)
       = Inr reason_okpd2
   \<and> reason_okpd2 \<noteq> reason_manufacturer"
proof -
  have a: "\<exists>issue \<in> set [msg_manufacturer, msg_okpd2_missing]. contains word_okpd2 issue"
    by (simp add: word_okpd2_in_messages)
  have b: "\<exists>issue \<in> set [msg_manufacturer, msg_okpd2_missing].
             contains word_manufacturer (lower issue)"
    by (simp add: manufacturer_issue_mentions_manufacturer)
  show ?thesis
    using a b C5_code_reason_beats_manufacturer [OF a b] by blast
qed

lemma determine_rejection_reason_nonempty:
  assumes "issues_list \<noteq> []"
  shows "\<exists>reason. determine_rejection_reason issues_list product = Inr reason
           \<and> (reason \<in> set canonical_reasons \<or> reason = rejection_marker @ hd issues_list)"
proof (cases issues_list)
  case Nil
  with assms show ?thesis by simp
next
  case (Cons first others)
  then show ?thesis
    by (simp add: determine_rejection_reason_def canonical_reasons_def)
qed

text \<open>
  A validation run raises nothing; its result is valid exactly when no issue was found, and
  an invalid result carries the reason that \<open>_determine_rejection_reason\<close> gives for the
  issues.
\<close>

lemma validation_process_shape:
  "\<exists>res. validation_process llm product research_result okpd2_result cat = Inr res
     \<and> is_valid res = (issues res = [])
     \<and> (if issues res = [] then rejection_reason res = None
         else (\<exists>reason. rejection_reason res = Some reason
                 \<and> determine_rejection_reason (issues res) product = Inr reason))"
proof -
  obtain okpd2_issues where o: "validate_okpd2 okpd2_result cat = Inr okpd2_issues"
    using validate_okpd2_total by blast
  define all_issues where
    "all_issues = (if cat = UNKNOWN then [msg_category_unknown] else []) @ okpd2_issues
       @ validate_specifications research_result cat product
       @ (case validate_unit product cat of Some unit_issue \<Rightarrow> [unit_issue] | None \<Rightarrow> [])
       @ check_variability product research_result
       @ apply_business_rules product research_result okpd2_result"
  show ?thesis
  proof (cases "all_issues = []")
    case True
    then have "validation_process llm product research_result okpd2_result cat
                 = Inr \<lparr>is_valid = True, issues = [], rejection_reason = None, suggestions = []\<rparr>"
      unfolding validation_process_def Let_def o all_issues_def by simp
    then show ?thesis by simp
  next
    case False
    then obtain reason where r: "determine_rejection_reason all_issues product = Inr reason"
      using determine_rejection_reason_nonempty by blast
    from False r have "validation_process llm product research_result okpd2_result cat
                 = Inr \<lparr>is_valid = False, issues = all_issues, rejection_reason = Some reason,
                        suggestions = generate_suggestions llm product all_issues research_result\<rparr>"
      unfolding validation_process_def Let_def o all_issues_def by simp
    with False r show ?thesis by simp
  qed
qed

text \<open>
  Claim C6. A validation run raises nothing and returns a result that is valid exactly
  when its issue list is empty. With no issue the rejection reason is \<open>None\<close>. With at
  least one issue the result is invalid and carries a rejection reason, which is one of the
  six fixed reasons or the first issue behind the marker \<open>Ne podlezhit normalizatsii: \<close>.
\<close>

theorem C6_valid_iff_no_issue:
  "\<exists>res. validation_process llm product research_result okpd2_result cat = Inr res
     \<and> (is_valid res \<longleftrightarrow> issues res = [])
     \<and> (issues res = [] \<longrightarrow> rejection_reason res = None)
     \<and> (issues res \<noteq> [] \<longrightarrow>
          \<not> is_valid res
          \<and> (\<exists>reason. rejection_reason res = Some reason
                \<and> (reason \<in> set canonical_reasons
                    \<or> reason = rejection_marker @ hd (issues res))))"
proof -
  obtain res where
    r: "validation_process llm product research_result okpd2_result cat = Inr res"
    and v: "is_valid res = (issues res = [])"
    and c: "if issues res = [] then rejection_reason res = None
            else (\<exists>reason. rejection_reason res = Some reason
                    \<and> determine_rejection_reason (issues res) product = Inr reason)"
    using validation_process_shape by blast
  have "\<exists>reason. rejection_reason res = Some reason
          \<and> (reason \<in> set canonical_reasons \<or> reason = rejection_marker @ hd (issues res))"
    if n: "issues res \<noteq> []"
  proof -
    from n c obtain reason where s: "rejection_reason res = Some reason"
      and d: "determine_rejection_reason (issues res) product = Inr reason"
      by auto
    from determine_rejection_reason_nonempty [OF n, of product] d
    have "reason \<in> set canonical_reasons \<or> reason = rejection_marker @ hd (issues res)"
      by auto
    with s show ?thesis by blast
  qed
  with r v c show ?thesis by auto
qed

lemma rx_match_prefix_RZero [simp]: "rx_match_prefix RZero s = False"
  by (induction s) auto

lemma re_search_RZero [simp]: "re_search RZero s = False"
  by (induction s) auto

lemmas rx_defs = any_star_def digits_def spaces_def rx_plus_def rx_opt_def rx_two_def rx_three_def
  is_digit_def is_space_def lower_cp_def

text \<open>The validation of the example hammer, under any name for the language model.\<close>

lemma hammer_okpd2_valid: "validate_okpd2 (Some hammer_okpd2) HAMMER = Inr []"
proof -
  have "is_valid_okpd2_format (asc ''25.73.30.123'')"
    by (simp add: is_valid_okpd2_format_def re_match_anchored_def okpd2_pattern_def rx_two_def
        rx_three_def rx_opt_def asc_def is_digit_def)
  then show ?thesis
    by (simp add: validate_okpd2_present hammer_okpd2_def)
qed

lemma hammer_no_variability:
  assumes "original_name p = asc ''hammer''"
  shows "check_variability p (Some (hammer_research\<lparr>rd_manufacturer := m\<rparr>)) = []"
proof -
  have "\<not> list_ex (\<lambda>pattern. re_search pattern (asc ''hammer'')) color_patterns"
    by (simp add: color_patterns_def asc_def rx_defs)
  then show ?thesis
    by (simp add: check_variability_def assms hammer_research_def size_fields_def has_range_def
        asc_def)
qed

lemma hammer_not_generic:
  "\<not> list_ex (\<lambda>term. contains term (lower (asc ''hammer''))) generic_terms"
  by (simp add: generic_terms_def asc_def lower_def lower_cp_def)

lemma hammer_specifications:
  "validate_specifications (Some (hammer_research\<lparr>rd_manufacturer := m\<rparr>)) HAMMER p = []"
  by (simp add: validate_specifications_def hammer_research_def asc_def
      placeholder_patterns_def lower_def lower_cp_def)

lemma hammer_unit:
  assumes "lower (original_unit p) = [0x448, 0x442]"
  shows "validate_unit p HAMMER = None"
  using assms by (simp add: validate_unit_def units_piece_def lower_def lower_cp_def)

lemma hammer_validation:
  assumes "original_name p = asc ''hammer''" and "lower (original_unit p) = [0x448, 0x442]"
  shows "validation_process llm p (Some hammer_research) (Some hammer_okpd2) HAMMER
           = Inr \<lparr>is_valid = True, issues = [], rejection_reason = None, suggestions = []\<rparr>"
proof -
  have v: "check_variability p (Some hammer_research) = []"
    using hammer_no_variability [OF assms(1), of "rd_manufacturer hammer_research"] by simp
  have s: "validate_specifications (Some hammer_research) HAMMER p = []"
    using hammer_specifications [of "rd_manufacturer hammer_research" p] by simp
  have b: "apply_business_rules p (Some hammer_research) (Some hammer_okpd2) = []"
    using hammer_not_generic
    by (simp add: apply_business_rules_def assms(1) hammer_research_def asc_def
        unknown_manufacturers_def lower_def lower_cp_def)
  show ?thesis
    unfolding validation_process_def Let_def hammer_okpd2_valid s v b hammer_unit [OF assms(2)]
    by simp
qed

lemma no_manufacturer_validation:
  assumes "original_name p = asc ''hammer''" and "lower (original_unit p) = [0x448, 0x442]"
  shows "validation_process (\<lambda>product issues_list. None) p
           (Some (hammer_research\<lparr>rd_manufacturer := None\<rparr>)) (Some hammer_okpd2) HAMMER
           = Inr \<lparr>is_valid = False, issues = [msg_manufacturer],
                  rejection_reason = Some reason_manufacturer,
                  suggestions = [suggestion_ask_supplier, suggestion_check_catalogue]\<rparr>"
proof -
  have b: "apply_business_rules p (Some (hammer_research\<lparr>rd_manufacturer := None\<rparr>))
             (Some hammer_okpd2) = [msg_manufacturer]"
    using hammer_not_generic
    by (simp add: apply_business_rules_def assms(1) hammer_research_def asc_def)
  have n: "\<not> contains word_okpd2 msg_manufacturer"
    by (simp add: word_okpd2_def msg_manufacturer_def)
  have r: "determine_rejection_reason [msg_manufacturer] p = Inr reason_manufacturer"
    using n manufacturer_issue_mentions_manufacturer
    by (simp add: determine_rejection_reason_def)
  show ?thesis
    unfolding validation_process_def Let_def hammer_okpd2_valid hammer_specifications
      hammer_no_variability [OF assms(1)] b hammer_unit [OF assms(2)]
    by (simp add: r generate_suggestions_def)
qed

lemma product_a_fields:
  "original_name product_a = asc ''hammer''"
  "lower (original_unit product_a) = [0x448, 0x442]"
  "internal_code product_a = asc ''A-1''"
  "category product_a = UNKNOWN"
  by (simp_all add: product_a_def example_product_def lower_def lower_cp_def)

theorem C6_valid_iff_no_issue_witness:
  "(\<exists>res. validation_process (\<lambda>product issues_list. None) product_a
            (Some hammer_research) (Some hammer_okpd2) HAMMER = Inr res
          \<and> issues res = [] \<and> is_valid res \<and> rejection_reason res = None)
   \<and> (\<exists>res. validation_process (\<lambda>product issues_list. None) product_a
            (Some (hammer_research\<lparr>rd_manufacturer := None\<rparr>)) (Some hammer_okpd2) HAMMER
              = Inr res
          \<and> issues res \<noteq> [] \<and> \<not> is_valid res
          \<and> rejection_reason res = Some reason_manufacturer
          \<and> reason_manufacturer \<in> set canonical_reasons)"
proof
  obtain res where
    r: "validation_process (\<lambda>product issues_list. None) product_a
          (Some hammer_research) (Some hammer_okpd2) HAMMER = Inr res"
    and v: "is_valid res \<longleftrightarrow> issues res = []"
    and n: "issues res = [] \<longrightarrow> rejection_reason res = None"
    using C6_valid_iff_no_issue by blast
  from r have "issues res = []"
    by (auto simp: hammer_validation product_a_fields)
  with r v n show "\<exists>res. validation_process (\<lambda>product issues_list. None) product_a
            (Some hammer_research) (Some hammer_okpd2) HAMMER = Inr res
          \<and> issues res = [] \<and> is_valid res \<and> rejection_reason res = None"
    by blast
next
  obtain res where
    r: "validation_process (\<lambda>product issues_list. None) product_a
          (Some (hammer_research\<lparr>rd_manufacturer := None\<rparr>)) (Some hammer_okpd2) HAMMER
            = Inr res"
    and i: "issues res \<noteq> [] \<longrightarrow>
          \<not> is_valid res
          \<and> (\<exists>reason. rejection_reason res = Some reason
                \<and> (reason \<in> set canonical_reasons
                    \<or> reason = rejection_marker @ hd (issues res)))"
    using C6_valid_iff_no_issue by blast
  from r have e: "issues res \<noteq> []" and q: "rejection_reason res = Some reason_manufacturer"
    by (auto simp: no_manufacturer_validation product_a_fields)
  have "reason_manufacturer \<in> set canonical_reasons"
    by (simp add: canonical_reasons_def)
  with r i e q show "\<exists>res. validation_process (\<lambda>product issues_list. None) product_a
            (Some (hammer_research\<lparr>rd_manufacturer := None\<rparr>)) (Some hammer_okpd2) HAMMER
              = Inr res
          \<and> issues res \<noteq> [] \<and> \<not> is_valid res
          \<and> rejection_reason res = Some reason_manufacturer
          \<and> reason_manufacturer \<in> set canonical_reasons"
    by blast
qed

section \<open>Properties of the processor\<close>

subsection \<open>Grouping and batching\<close>

lemma firsts_snoc: "firsts (xs @ [x]) = (if x \<in> set xs then firsts xs else firsts xs @ [x])"
  by (simp add: firsts_def)

lemma set_firsts [simp]: "set (firsts xs) = set xs"
  by (simp add: firsts_def)

lemma distinct_firsts [simp]: "distinct (firsts xs)"
  by (simp add: firsts_def)

lemma dict_append_map:
  assumes "distinct ks"
  shows "dict_append k v (map (\<lambda>k'. (k', g k')) ks) =
           (if k \<in> set ks then map (\<lambda>k'. (k', if k' = k then g k' @ [v] else g k')) ks
            else map (\<lambda>k'. (k', g k')) ks @ [(k, [v])])"
  using assms by (induction ks) auto

lemma foldl_dict_append:
  "foldl (\<lambda>d x. dict_append (f x) x d) [] xs =
     map (\<lambda>k. (k, filter (\<lambda>x. f x = k) xs)) (firsts (map f xs))"
proof (induction xs rule: rev_induct)
  case Nil
  show ?case by (simp add: firsts_def)
next
  case (snoc x xs)
  have "foldl (\<lambda>d x. dict_append (f x) x d) [] (xs @ [x]) =
          dict_append (f x) x (map (\<lambda>k. (k, filter (\<lambda>x. f x = k) xs)) (firsts (map f xs)))"
    by (simp add: snoc.IH)
  also have "\<dots> = map (\<lambda>k. (k, filter (\<lambda>x. f x = k) (xs @ [x]))) (firsts (map f (xs @ [x])))"
  proof (cases "f x \<in> set (map f xs)")
    case True
    then show ?thesis
      by (simp add: dict_append_map firsts_snoc)
  next
    case False
    then have h: "\<forall>y \<in> set xs. f y \<noteq> f x" and h': "\<forall>y \<in> set xs. f x \<noteq> f y"
      by (auto simp: image_iff)
    then have "filter (\<lambda>y. f y = f x) xs = []"
      by (simp add: filter_empty_conv)
    with False h h' show ?thesis
      by (simp add: dict_append_map firsts_snoc)
  qed
  finally show ?case .
qed

lemma categorize_products_groups:
  "categorize_products ps =
     map (\<lambda>cat. (cat, filter (\<lambda>product. category product = cat) (map detect_if_unset ps)))
       (firsts (map category (map detect_if_unset ps)))"
proof -
  have "categorize_products ps =
          foldl (\<lambda>d product. dict_append (category product) product d) []
            (map detect_if_unset ps)"
    by (simp add: categorize_products_def foldl_map Let_def)
  then show ?thesis
    by (simp only: foldl_dict_append)
qed

lemma concat_slices:
  "concat (map (\<lambda>i. take n (drop i xs)) (map (\<lambda>k. k * n) [0 ..< m])) = take (m * n) xs"
proof (induction m)
  case 0
  show ?case by simp
next
  case (Suc m)
  have "take (m * n) xs @ take n (drop (m * n) xs) = take (m * n + n) xs"
    by (simp add: take_add)
  with Suc show ?case
    by (simp add: add.commute)
qed

lemma concat_batches:
  "concat (map products (create_batches ps cat)) = ps"
proof -
  have "length ps \<le> ((length ps + batch_size - 1) div batch_size) * batch_size"
    by (simp add: batch_size_def)
  moreover have "concat (map products (create_batches ps cat))
          = take (((length ps + batch_size - 1) div batch_size) * batch_size) ps"
    using concat_slices [of batch_size ps "(length ps + batch_size - 1) div batch_size"]
    by (simp add: create_batches_def comp_def Let_def)
  ultimately show ?thesis by simp
qed

lemma batch_category_create_batches:
  "batch \<in> set (create_batches ps cat) \<Longrightarrow> batch_category batch = cat"
  by (auto simp: create_batches_def Let_def)

lemma process_batches:
  "concat (map (\<lambda>batch. fst (process_batch orc batch)) (create_batches ps cat))
     = map (\<lambda>product. process_single_product orc product cat) ps"
proof -
  have e1: "map (\<lambda>batch. fst (process_batch orc batch)) (create_batches ps cat)
          = map (\<lambda>batch. map (\<lambda>product. process_single_product orc product cat) (products batch))
              (create_batches ps cat)"
    by (rule map_cong) (auto simp: process_batch_def Let_def batch_category_create_batches)
  have e2: "concat (map (\<lambda>batch. map (\<lambda>product. process_single_product orc product cat)
                                   (products batch)) (create_batches ps cat))
          = map (\<lambda>product. process_single_product orc product cat)
              (concat (map products (create_batches ps cat)))"
    by (simp add: map_concat comp_def)
  show ?thesis
    by (simp only: e1 e2 concat_batches)
qed

text \<open>
  The results of a run are the results of the single products, taken category by category.
\<close>

lemma process_products_grouped:
  "process_products orc ps =
     map (\<lambda>product. process_single_product orc product (category product))
       (group_by_category (map detect_if_unset ps))"
proof -
  have "process_products orc ps =
          concat (map (\<lambda>(cat, category_products).
                         map (\<lambda>product. process_single_product orc product cat) category_products)
                    (categorize_products ps))"
    by (simp add: process_products_def process_batches)
  also have "\<dots> = concat (map (\<lambda>cat.
                  map (\<lambda>product. process_single_product orc product (category product))
                    (filter (\<lambda>product. category product = cat) (map detect_if_unset ps)))
                (firsts (map category (map detect_if_unset ps))))"
    unfolding categorize_products_groups map_map comp_def prod.case
    by (intro arg_cong [where f = concat] map_cong refl) auto
  also have "\<dots> = map (\<lambda>product. process_single_product orc product (category product))
                     (group_by_category (map detect_if_unset ps))"
    by (simp add: group_by_category_def map_concat comp_def)
  finally show ?thesis .
qed

lemma mset_filter_keys:
  assumes "distinct ks"
  shows "mset (concat (map (\<lambda>k. filter (\<lambda>x. f x = k) xs) ks))
           = filter_mset (\<lambda>x. f x \<in> set ks) (mset xs)"
  using assms
proof (induction ks)
  case Nil
  show ?case by simp
next
  case (Cons k ks)
  have "filter_mset (\<lambda>x. f x = k) (mset xs) + filter_mset (\<lambda>x. f x \<in> set ks) (mset xs)
          = filter_mset (\<lambda>x. f x \<in> set (k # ks)) (mset xs)"
    using Cons.prems by (auto simp: multiset_eq_iff)
  with Cons show ?case by simp
qed

lemma mset_group_by_category: "mset (group_by_category ps) = mset ps"
proof -
  have "filter_mset (\<lambda>x. category x \<in> set (firsts (map category ps))) (mset ps) = mset ps"
    by (simp add: filter_mset_eq_conv)
  then show ?thesis
    by (simp add: group_by_category_def mset_filter_keys)
qed

lemma length_group_by_category: "length (group_by_category ps) = length ps"
  using mset_group_by_category [of ps] by (metis size_mset)

lemma set_group_by_category: "set (group_by_category ps) = set ps"
  using mset_group_by_category [of ps] by (metis set_mset_mset)

lemma remdups_replicate: "remdups (replicate n x) = (if n = 0 then [] else [x])"
  by (induction n) auto

lemma firsts_replicate: "0 < n \<Longrightarrow> firsts (replicate n x) = [x]"
  by (simp add: firsts_def remdups_replicate)

lemma group_by_category_same:
  assumes "\<forall>product \<in> set ps. category product = cat"
  shows "group_by_category ps = ps"
proof (cases "ps = []")
  case True
  then show ?thesis by (simp add: group_by_category_def firsts_def)
next
  case False
  from assms have "map category ps = replicate (length ps) cat"
    by (simp add: map_replicate_const [symmetric] cong: map_cong)
  moreover from False have "0 < length ps" by simp
  ultimately have "firsts (map category ps) = [cat]"
    by (simp only: firsts_replicate)
  moreover from assms have "filter (\<lambda>product. category product = cat) ps = ps"
    by simp
  ultimately show ?thesis
    by (simp add: group_by_category_def)
qed

subsection \<open>One product\<close>

lemma get_normalized_unit_original_unit:
  "original_unit p = original_unit q \<Longrightarrow> get_normalized_unit p cat = get_normalized_unit q cat"
  by (simp add: get_normalized_unit_def split: option.splits)

lemma process_single_product_failed:
  assumes "run_agents orc (p\<lparr>status := PROCESSING\<rparr>) cat = Inl e"
  shows "process_single_product orc p cat
           = p\<lparr>status := FAILED, error_message := Some (error_text e)\<rparr>"
  using assms by (simp add: process_single_product_def Let_def)

lemma process_single_product_done:
  assumes "run_agents orc (p\<lparr>status := PROCESSING\<rparr>) cat = Inr (rr, ok, v)"
  shows "status (process_single_product orc p cat) = (if is_valid v then COMPLETED else REJECTED)"
    and "okpd2_code (process_single_product orc p cat) = Some (code ok)"
    and "normalized_unit (process_single_product orc p cat) = Some (get_normalized_unit p cat)"
    and "comment (process_single_product orc p cat)
           = (if is_valid v then Some comment_normalized else rejection_reason v)"
proof -
  have u: "get_normalized_unit (p\<lparr>status := PROCESSING, specifications := s, okpd2_code := c\<rparr>) cat
             = get_normalized_unit p cat" for s c
    by (rule get_normalized_unit_original_unit) simp
  show "status (process_single_product orc p cat) = (if is_valid v then COMPLETED else REJECTED)"
    using assms by (simp add: process_single_product_def Let_def)
  show "okpd2_code (process_single_product orc p cat) = Some (code ok)"
    using assms by (simp add: process_single_product_def Let_def)
  show "normalized_unit (process_single_product orc p cat) = Some (get_normalized_unit p cat)"
    using assms by (simp add: process_single_product_def Let_def u)
  show "comment (process_single_product orc p cat)
           = (if is_valid v then Some comment_normalized else rejection_reason v)"
    using assms by (simp add: process_single_product_def Let_def)
qed

lemma internal_code_process_single_product:
  "internal_code (process_single_product orc p cat) = internal_code p"
  by (simp add: process_single_product_def Let_def split: sum.splits prod.splits)

lemma run_agents_validation:
  assumes "run_agents orc p cat = Inr (rr, ok, v)"
  shows "validation_process (suggest orc) p (Some (dict_of_research rr))
           (Some (dict_of_okpd2 ok)) cat = Inr v"
  using assms by (auto simp: run_agents_def split: sum.splits)

lemma rejected_has_reason:
  assumes "run_agents orc p cat = Inr (rr, ok, v)" and "\<not> is_valid v"
  shows "\<exists>reason. rejection_reason v = Some reason"
proof -
  obtain res where
    r: "validation_process (suggest orc) p (Some (dict_of_research rr))
          (Some (dict_of_okpd2 ok)) cat = Inr res"
    and i: "is_valid res = (issues res = [])"
    and c: "if issues res = [] then rejection_reason res = None
            else (\<exists>reason. rejection_reason res = Some reason
                    \<and> determine_rejection_reason (issues res) p = Inr reason)"
    using validation_process_shape by blast
  from r run_agents_validation [OF assms(1)] have "res = v" by simp
  with i c assms(2) show ?thesis by auto
qed

lemma category_units_known:
  "category_units PRESSURE_SENSOR = Some units_piece"
  "category_units STEEL_CIRCLE = Some units_ton"
  "category_units HAMMER = Some units_piece"
  "category_units TIRE = Some units_piece"
  "category_units UNKNOWN = None"
  by (simp_all add: category_units_def unit_validation_def units_piece_def units_ton_def)

subsection \<open>A run\<close>

lemma process_products_member:
  assumes "q \<in> set (process_products orc ps)"
  shows "\<exists>p \<in> set (map detect_if_unset ps). q = process_single_product orc p (category p)"
  using assms by (auto simp: process_products_grouped set_group_by_category)

text \<open>
  Claim C7. Every product that a run returns is COMPLETED, REJECTED or FAILED. A COMPLETED
  product has a classification code and a normalized unit. A REJECTED product is the result
  of a product whose agents ran to an invalid validation result, and its comment is the
  rejection reason of that result. A FAILED product has an error message.
\<close>

theorem C7_terminal_invariants:
  "\<forall>q \<in> set (process_products orc ps).
      (status q = COMPLETED \<or> status q = REJECTED \<or> status q = FAILED)
      \<and> (status q = COMPLETED \<longrightarrow> okpd2_code q \<noteq> None \<and> normalized_unit q \<noteq> None)
      \<and> (status q = REJECTED \<longrightarrow>
            (\<exists>p cat rr ok v reason.
                q = process_single_product orc p cat
                \<and> run_agents orc (p\<lparr>status := PROCESSING\<rparr>) cat = Inr (rr, ok, v)
                \<and> \<not> is_valid v \<and> rejection_reason v = Some reason
                \<and> comment q = Some reason))
      \<and> (status q = FAILED \<longrightarrow> error_message q \<noteq> None)"
proof
  fix q
  assume "q \<in> set (process_products orc ps)"
  then obtain p where q: "q = process_single_product orc p (category p)"
    using process_products_member by blast
  show "(status q = COMPLETED \<or> status q = REJECTED \<or> status q = FAILED)
      \<and> (status q = COMPLETED \<longrightarrow> okpd2_code q \<noteq> None \<and> normalized_unit q \<noteq> None)
      \<and> (status q = REJECTED \<longrightarrow>
            (\<exists>p cat rr ok v reason.
                q = process_single_product orc p cat
                \<and> run_agents orc (p\<lparr>status := PROCESSING\<rparr>) cat = Inr (rr, ok, v)
                \<and> \<not> is_valid v \<and> rejection_reason v = Some reason
                \<and> comment q = Some reason))
      \<and> (status q = FAILED \<longrightarrow> error_message q \<noteq> None)"
  proof (cases "run_agents orc (p\<lparr>status := PROCESSING\<rparr>) (category p)")
    case (Inl e)
    then show ?thesis
      by (simp add: q process_single_product_failed)
  next
    case (Inr r)
    then obtain rr ok v where
      r: "run_agents orc (p\<lparr>status := PROCESSING\<rparr>) (category p) = Inr (rr, ok, v)"
      by (cases r) auto
    show ?thesis
    proof (cases "is_valid v")
      case True
      with r show ?thesis
        by (simp add: q process_single_product_done)
    next
      case False
      then obtain reason where s: "rejection_reason v = Some reason"
        using rejected_has_reason [OF r] by blast
      from False r s have c: "comment q = Some reason" and t: "status q = REJECTED"
        by (simp_all add: q process_single_product_done)
      from q r False s c have "\<exists>p cat rr ok v reason.
                q = process_single_product orc p cat
                \<and> run_agents orc (p\<lparr>status := PROCESSING\<rparr>) cat = Inr (rr, ok, v)
                \<and> \<not> is_valid v \<and> rejection_reason v = Some reason
                \<and> comment q = Some reason"
        by blast
      with t show ?thesis
        by simp
    qed
  qed
qed

text \<open>
  Claim C2, amended. In a run where the agents raise for exactly one product and return
  for all others, there are as many results as products; the result of the one product is
  FAILED and carries the text of the exception; the result of every other product is
  COMPLETED or REJECTED. The results come category by category, the categories in the order
  of their first product and the products of a category in input order: the order of the
  results is the order of the input when all products are of one category.
\<close>

theorem C2_one_failure_isolated:
  assumes "i < length ps"
    and "run_agents orc ((map detect_if_unset ps ! i)\<lparr>status := PROCESSING\<rparr>)
           (category (map detect_if_unset ps ! i)) = Inl e"
    and "\<forall>j < length ps. j \<noteq> i \<longrightarrow>
           (\<exists>r. run_agents orc ((map detect_if_unset ps ! j)\<lparr>status := PROCESSING\<rparr>)
                   (category (map detect_if_unset ps ! j)) = Inr r)"
  shows "length (process_products orc ps) = length ps
     \<and> process_products orc ps
         = map (\<lambda>product. process_single_product orc product (category product))
             (group_by_category (map detect_if_unset ps))
     \<and> mset (group_by_category (map detect_if_unset ps)) = mset (map detect_if_unset ps)
     \<and> ((\<forall>product \<in> set (map detect_if_unset ps). category product = cat) \<longrightarrow>
          map internal_code (process_products orc ps) = map internal_code ps)
     \<and> status (process_single_product orc (map detect_if_unset ps ! i)
                 (category (map detect_if_unset ps ! i))) = FAILED
     \<and> error_message (process_single_product orc (map detect_if_unset ps ! i)
                 (category (map detect_if_unset ps ! i))) = Some (error_text e)
     \<and> (\<forall>j < length ps. j \<noteq> i \<longrightarrow>
           status (process_single_product orc (map detect_if_unset ps ! j)
                     (category (map detect_if_unset ps ! j))) \<in> {COMPLETED, REJECTED})"
proof (intro conjI allI impI)
  show "length (process_products orc ps) = length ps"
    by (simp add: process_products_grouped length_group_by_category)
  show "process_products orc ps
         = map (\<lambda>product. process_single_product orc product (category product))
             (group_by_category (map detect_if_unset ps))"
    by (rule process_products_grouped)
  show "mset (group_by_category (map detect_if_unset ps)) = mset (map detect_if_unset ps)"
    by (rule mset_group_by_category)
  show "map internal_code (process_products orc ps) = map internal_code ps"
    if "\<forall>product \<in> set (map detect_if_unset ps). category product = cat"
  proof -
    have "internal_code (detect_if_unset p) = internal_code p" for p
      by (simp add: detect_if_unset_def Let_def split: prod.splits)
    then show ?thesis
      by (simp add: process_products_grouped group_by_category_same [OF that]
          internal_code_process_single_product comp_def)
  qed
  show "status (process_single_product orc (map detect_if_unset ps ! i)
                 (category (map detect_if_unset ps ! i))) = FAILED"
    by (simp add: process_single_product_failed [OF assms(2)])
  show "error_message (process_single_product orc (map detect_if_unset ps ! i)
                 (category (map detect_if_unset ps ! i))) = Some (error_text e)"
    by (simp add: process_single_product_failed [OF assms(2)])
  show "status (process_single_product orc (map detect_if_unset ps ! j)
                     (category (map detect_if_unset ps ! j))) \<in> {COMPLETED, REJECTED}"
    if "j < length ps" and "j \<noteq> i" for j
  proof -
    from assms(3) that obtain r where
      "run_agents orc ((map detect_if_unset ps ! j)\<lparr>status := PROCESSING\<rparr>)
         (category (map detect_if_unset ps ! j)) = Inr r"
      by blast
    then obtain rr ok v where
      "run_agents orc ((map detect_if_unset ps ! j)\<lparr>status := PROCESSING\<rparr>)
         (category (map detect_if_unset ps ! j)) = Inr (rr, ok, v)"
      by (cases r) auto
    then show ?thesis
      by (simp add: process_single_product_done(1))
  qed
qed

section \<open>Properties of the category detector\<close>

lemma calculate_category_score_alt:
  "calculate_category_score text cat =
     min ((case patterns cat of
             Some ps \<Rightarrow> of_nat (length (filter (\<lambda>pattern. re_search pattern text) ps)) * 0.3
           | None \<Rightarrow> 0)
          + of_nat (length (filter (\<lambda>keyword. contains (lower keyword) (lower text))
                              (category_keywords cat))) * 0.2) 1"
proof (cases "map_of PRODUCT_CATEGORIES (category_value cat)")
  case None
  then have "category_keywords cat = []"
    by (simp add: category_keywords_def)
  with None show ?thesis
    by (simp add: calculate_category_score_def Let_def split: option.splits)
next
  case (Some cfg)
  then have "category_keywords cat = cfg_keywords cfg"
    by (simp add: category_keywords_def)
  with Some show ?thesis
    by (simp add: calculate_category_score_def Let_def split: option.splits)
qed

lemma calculate_category_score_le_1: "calculate_category_score tx cat \<le> 1"
  by (simp add: calculate_category_score_alt)

lemma smart_without_learning:
  "smart_calculate_category_score (\<lambda>c. None) = calculate_category_score"
proof (intro ext)
  fix tx cat
  show "smart_calculate_category_score (\<lambda>c. None) tx cat = calculate_category_score tx cat"
    using calculate_category_score_le_1 [of tx cat]
    by (simp add: smart_calculate_category_score_def)
qed

lemma smart_detect_without_learning: "smart_detect_category (\<lambda>c. None) = detect_category"
  by (simp only: smart_detect_category_def detect_category_def smart_without_learning)

lemma keywords_pressure_sensor:
  "category_keywords PRESSURE_SENSOR =
     [[0x434, 0x430, 0x442, 0x447, 0x438, 0x43A], [0x434, 0x430, 0x432, 0x43B, 0x435, 0x43D],
      [0x73, 0x65, 0x6E, 0x73, 0x6F, 0x72], [0x70, 0x72, 0x65, 0x73, 0x73, 0x75, 0x72, 0x65],
      [0x43F, 0x440, 0x435, 0x43E, 0x431, 0x440, 0x430, 0x437, 0x43E, 0x432, 0x430,
        0x442, 0x435, 0x43B, 0x44C]]"
  by (simp add: category_keywords_def PRODUCT_CATEGORIES_def asc_def)

lemma keywords_steel_circle:
  "category_keywords STEEL_CIRCLE =
     [[0x43A, 0x440, 0x443, 0x433], [0x441, 0x442, 0x430, 0x43B, 0x44C],
      [0x73, 0x74, 0x65, 0x65, 0x6C], [0x63, 0x69, 0x72, 0x63, 0x6C, 0x65],
      [0x43F, 0x440, 0x43E, 0x43A, 0x430, 0x442]]"
  by (simp add: category_keywords_def PRODUCT_CATEGORIES_def asc_def)

lemma keywords_hammer:
  "category_keywords HAMMER =
     [[0x43C, 0x43E, 0x43B, 0x43E, 0x442], [0x68, 0x61, 0x6D, 0x6D, 0x65, 0x72]]"
  by (simp add: category_keywords_def PRODUCT_CATEGORIES_def asc_def)

lemma keywords_tire:
  "category_keywords TIRE =
     [[0x448, 0x438, 0x43D, 0x430], [0x74, 0x69, 0x72, 0x65],
      [0x440, 0x435, 0x437, 0x438, 0x43D, 0x430],
      [0x43F, 0x43E, 0x43A, 0x440, 0x44B, 0x448, 0x43A, 0x430]]"
  by (simp add: category_keywords_def PRODUCT_CATEGORIES_def asc_def)

lemma keywords_unknown: "category_keywords UNKNOWN = []"
  by (simp add: category_keywords_def PRODUCT_CATEGORIES_def asc_def)

lemmas keywords_known =
  keywords_pressure_sensor keywords_steel_circle keywords_hammer keywords_tire keywords_unknown

subsection \<open>The detection of the example names\<close>

lemma hammer_scores:
  "calculate_category_score [0x68, 0x61, 0x6D, 0x6D, 0x65, 0x72] PRESSURE_SENSOR = 0"
  "calculate_category_score [0x68, 0x61, 0x6D, 0x6D, 0x65, 0x72] STEEL_CIRCLE = 0"
  "calculate_category_score [0x68, 0x61, 0x6D, 0x6D, 0x65, 0x72] HAMMER = 0.5"
  "calculate_category_score [0x68, 0x61, 0x6D, 0x6D, 0x65, 0x72] TIRE = 0"
proof -
  have l: "lower [0x68, 0x61, 0x6D, 0x6D, 0x65, 0x72] = [0x68, 0x61, 0x6D, 0x6D, 0x65, 0x72]"
    by (simp add: lower_def lower_cp_def)
  show "calculate_category_score [0x68, 0x61, 0x6D, 0x6D, 0x65, 0x72] PRESSURE_SENSOR = 0"
    unfolding calculate_category_score_alt l keywords_known
    by (simp add: asc_def rx_defs lower_def)
  show "calculate_category_score [0x68, 0x61, 0x6D, 0x6D, 0x65, 0x72] STEEL_CIRCLE = 0"
    unfolding calculate_category_score_alt l keywords_known
    by (simp add: asc_def rx_defs lower_def)
  show "calculate_category_score [0x68, 0x61, 0x6D, 0x6D, 0x65, 0x72] HAMMER = 0.5"
    unfolding calculate_category_score_alt l keywords_known
    by (simp add: asc_def rx_defs lower_def)
  show "calculate_category_score [0x68, 0x61, 0x6D, 0x6D, 0x65, 0x72] TIRE = 0"
    unfolding calculate_category_score_alt l keywords_known
    by (simp add: asc_def rx_defs lower_def)
qed

lemma tire_scores:
  "calculate_category_score [0x74, 0x69, 0x72, 0x65] PRESSURE_SENSOR = 0"
  "calculate_category_score [0x74, 0x69, 0x72, 0x65] STEEL_CIRCLE = 0"
  "calculate_category_score [0x74, 0x69, 0x72, 0x65] HAMMER = 0"
  "calculate_category_score [0x74, 0x69, 0x72, 0x65] TIRE = 0.5"
proof -
  have l: "lower [0x74, 0x69, 0x72, 0x65] = [0x74, 0x69, 0x72, 0x65]"
    by (simp add: lower_def lower_cp_def)
  show "calculate_category_score [0x74, 0x69, 0x72, 0x65] PRESSURE_SENSOR = 0"
    unfolding calculate_category_score_alt l keywords_known
    by (simp add: asc_def rx_defs lower_def)
  show "calculate_category_score [0x74, 0x69, 0x72, 0x65] STEEL_CIRCLE = 0"
    unfolding calculate_category_score_alt l keywords_known
    by (simp add: asc_def rx_defs lower_def)
  show "calculate_category_score [0x74, 0x69, 0x72, 0x65] HAMMER = 0"
    unfolding calculate_category_score_alt l keywords_known
    by (simp add: asc_def rx_defs lower_def)
  show "calculate_category_score [0x74, 0x69, 0x72, 0x65] TIRE = 0.5"
    unfolding calculate_category_score_alt l keywords_known
    by (simp add: asc_def rx_defs lower_def)
qed

lemma detect_hammer: "detect_category (asc ''hammer'') = (HAMMER, 0.5)"
proof -
  have a: "asc ''hammer'' = [0x68, 0x61, 0x6D, 0x6D, 0x65, 0x72]"
    by (simp add: asc_def)
  have n: "normalize_text [0x68, 0x61, 0x6D, 0x6D, 0x65, 0x72] = [0x68, 0x61, 0x6D, 0x6D, 0x65, 0x72]"
    by (simp add: normalize_text_def collapse_ws_def strip_def is_kept_def is_word_def
        is_space_def)
  show ?thesis
    unfolding detect_category_def detect_category_with_def a n Let_def all_categories_def
    by (simp add: hammer_scores)
qed

lemma detect_tire: "detect_category (asc ''tire'') = (TIRE, 0.5)"
proof -
  have a: "asc ''tire'' = [0x74, 0x69, 0x72, 0x65]"
    by (simp add: asc_def)
  have n: "normalize_text [0x74, 0x69, 0x72, 0x65] = [0x74, 0x69, 0x72, 0x65]"
    by (simp add: normalize_text_def collapse_ws_def strip_def is_kept_def is_word_def
        is_space_def)
  show ?thesis
    unfolding detect_category_def detect_category_with_def a n Let_def all_categories_def
    by (simp add: tire_scores)
qed

section \<open>The example run\<close>

lemma example_fields:
  "original_name product_b = asc ''tire''"
  "internal_code product_b = asc ''B-2''"
  "category product_b = UNKNOWN"
  "original_name product_c = asc ''hammer''"
  "lower (original_unit product_c) = [0x448, 0x442]"
  "internal_code product_c = asc ''C-3''"
  "category product_c = UNKNOWN"
  "original_name product_d = asc ''hammer''"
  "internal_code product_d = asc ''B-2''"
  "category product_d = UNKNOWN"
  by (simp_all add: product_b_def product_c_def product_d_def example_product_def lower_def
      lower_cp_def)

lemma detect_examples:
  "detect_if_unset product_a = product_a\<lparr>category := HAMMER, confidence_score := 0.5\<rparr>"
  "detect_if_unset product_b = product_b\<lparr>category := TIRE, confidence_score := 0.5\<rparr>"
  "detect_if_unset product_c = product_c\<lparr>category := HAMMER, confidence_score := 0.5\<rparr>"
  "detect_if_unset product_d = product_d\<lparr>category := HAMMER, confidence_score := 0.5\<rparr>"
  by (simp_all add: detect_if_unset_def product_a_fields example_fields
      smart_detect_without_learning detect_hammer detect_tire)

lemma dicts_of_examples:
  "dict_of_research hammer_result = hammer_research"
  "dict_of_research (hammer_result\<lparr>manufacturer := None\<rparr>)
     = hammer_research\<lparr>rd_manufacturer := None\<rparr>"
  "dict_of_okpd2 hammer_classification = hammer_okpd2"
  by (simp_all add: dict_of_research_def dict_of_okpd2_def hammer_result_def hammer_research_def
      hammer_classification_def hammer_okpd2_def)

lemma select_hammer_candidate:
  assumes "original_name p = asc ''hammer''" and "rd_product_type rd = None"
  shows "select_best_code
           [\<lparr>cand_code = asc ''25.73.30.123'', cand_name = asc ''Hammers'', cand_level = Some 4\<rparr>]
           p HAMMER (Some rd) = Inr hammer_classification"
proof -
  have s: "score_candidate
             \<lparr>cand_code = asc ''25.73.30.123'', cand_name = asc ''Hammers'', cand_level = Some 4\<rparr>
             p HAMMER (Some rd) = Inr 0.9"
    by (simp add: score_candidate_def enum_key_not_in_PRODUCT_CATEGORIES assms asc_def
        split_ws_def lower_def lower_cp_def is_space_def)
  have g: "get_parent_code (asc ''25.73.30.123'') = Some (asc ''25.73.30'')"
    by (simp add: get_parent_code_def asc_def)
  show ?thesis
    by (simp add: select_best_code_def s sort_scored_def g hammer_classification_def)
qed

lemma run_agents_raises:
  assumes "internal_code p = asc ''B-2''"
  shows "run_agents example_oracles p cat = Inl (Raised (asc ''timeout''))"
  by (simp add: run_agents_def example_oracles_def assms)

lemma run_agents_hammer:
  assumes "internal_code p = asc ''A-1''" and "original_name p = asc ''hammer''"
    and "lower (original_unit p) = [0x448, 0x442]"
  shows "run_agents example_oracles p HAMMER
           = Inr (hammer_result, hammer_classification,
                  \<lparr>is_valid = True, issues = [], rejection_reason = None, suggestions = []\<rparr>)"
proof -
  have r: "research example_oracles p HAMMER = Inr hammer_result"
    by (simp add: example_oracles_def assms(1) asc_def)
  have t: "rd_product_type hammer_research = None"
    by (simp add: hammer_research_def)
  have o: "okpd2_agent_process example_oracles p HAMMER (Some hammer_research)
             = Inr hammer_classification"
    using select_hammer_candidate [OF assms(2) t]
    by (simp add: okpd2_agent_process_def example_oracles_def)
  show ?thesis
    by (simp add: run_agents_def r o dicts_of_examples hammer_validation [OF assms(2,3)])
qed

lemma run_agents_no_manufacturer:
  assumes "internal_code p = asc ''C-3''" and "original_name p = asc ''hammer''"
    and "lower (original_unit p) = [0x448, 0x442]"
  shows "run_agents example_oracles p HAMMER
           = Inr (hammer_result\<lparr>manufacturer := None\<rparr>, hammer_classification,
                  \<lparr>is_valid = False, issues = [msg_manufacturer],
                   rejection_reason = Some reason_manufacturer,
                   suggestions = [suggestion_ask_supplier, suggestion_check_catalogue]\<rparr>)"
proof -
  have r: "research example_oracles p HAMMER = Inr (hammer_result\<lparr>manufacturer := None\<rparr>)"
    by (simp add: example_oracles_def assms(1) asc_def)
  have t: "rd_product_type (hammer_research\<lparr>rd_manufacturer := None\<rparr>) = None"
    by (simp add: hammer_research_def)
  have o: "okpd2_agent_process example_oracles p HAMMER
             (Some (hammer_research\<lparr>rd_manufacturer := None\<rparr>)) = Inr hammer_classification"
    using select_hammer_candidate [OF assms(2) t]
    by (simp add: okpd2_agent_process_def example_oracles_def)
  have s: "suggest example_oracles = (\<lambda>product issues_list. None)"
    by (simp add: example_oracles_def)
  show ?thesis
    by (simp add: run_agents_def r o s dicts_of_examples
        no_manufacturer_validation [OF assms(2,3)])
qed

lemma example_agents:
  "run_agents example_oracles ((detect_if_unset product_a)\<lparr>status := PROCESSING\<rparr>) HAMMER
     = Inr (hammer_result, hammer_classification,
            \<lparr>is_valid = True, issues = [], rejection_reason = None, suggestions = []\<rparr>)"
  "run_agents example_oracles ((detect_if_unset product_b)\<lparr>status := PROCESSING\<rparr>) TIRE
     = Inl (Raised (asc ''timeout''))"
  "run_agents example_oracles ((detect_if_unset product_c)\<lparr>status := PROCESSING\<rparr>) HAMMER
     = Inr (hammer_result\<lparr>manufacturer := None\<rparr>, hammer_classification,
            \<lparr>is_valid = False, issues = [msg_manufacturer],
             rejection_reason = Some reason_manufacturer,
             suggestions = [suggestion_ask_supplier, suggestion_check_catalogue]\<rparr>)"
  "run_agents example_oracles ((detect_if_unset product_d)\<lparr>status := PROCESSING\<rparr>) HAMMER
     = Inl (Raised (asc ''timeout''))"
proof -
  show "run_agents example_oracles ((detect_if_unset product_a)\<lparr>status := PROCESSING\<rparr>) HAMMER
     = Inr (hammer_result, hammer_classification,
            \<lparr>is_valid = True, issues = [], rejection_reason = None, suggestions = []\<rparr>)"
    by (rule run_agents_hammer) (simp_all add: detect_examples product_a_fields)
  show "run_agents example_oracles ((detect_if_unset product_b)\<lparr>status := PROCESSING\<rparr>) TIRE
     = Inl (Raised (asc ''timeout''))"
    by (rule run_agents_raises) (simp add: detect_examples example_fields)
  show "run_agents example_oracles ((detect_if_unset product_c)\<lparr>status := PROCESSING\<rparr>) HAMMER
     = Inr (hammer_result\<lparr>manufacturer := None\<rparr>, hammer_classification,
            \<lparr>is_valid = False, issues = [msg_manufacturer],
             rejection_reason = Some reason_manufacturer,
             suggestions = [suggestion_ask_supplier, suggestion_check_catalogue]\<rparr>)"
    by (rule run_agents_no_manufacturer) (simp_all add: detect_examples example_fields)
  show "run_agents example_oracles ((detect_if_unset product_d)\<lparr>status := PROCESSING\<rparr>) HAMMER
     = Inl (Raised (asc ''timeout''))"
    by (rule run_agents_raises) (simp add: detect_examples example_fields)
qed

lemma example_categories:
  "category (detect_if_unset product_a) = HAMMER"
  "category (detect_if_unset product_b) = TIRE"
  "category (detect_if_unset product_c) = HAMMER"
  "category (detect_if_unset product_d) = HAMMER"
  by (simp_all add: detect_examples)

lemma example_run:
  "process_products example_oracles [product_a, product_b, product_c] =
     [process_single_product example_oracles (detect_if_unset product_a) HAMMER,
      process_single_product example_oracles (detect_if_unset product_c) HAMMER,
      process_single_product example_oracles (detect_if_unset product_b) TIRE]"
  by (simp add: process_products_grouped group_by_category_def firsts_def example_categories)

lemma example_run_internal_codes:
  "map internal_code (process_products example_oracles [product_a, product_b, product_c])
     = [asc ''A-1'', asc ''C-3'', asc ''B-2'']"
  by (simp add: example_run internal_code_process_single_product detect_examples
      product_a_fields example_fields)

text \<open>
  Claim C2, as stated, fails on the order of the results. In the example run the agents
  raise for the tire alone; the hammers are one COMPLETED and one REJECTED; and the results
  come in the order A-1, C-3, B-2 for the input A-1, B-2, C-3, because the results are
  collected category by category.
\<close>

theorem C2_order_counterexample:
  "run_agents example_oracles
      ((map detect_if_unset [product_a, product_b, product_c] ! 1)\<lparr>status := PROCESSING\<rparr>)
      (category (map detect_if_unset [product_a, product_b, product_c] ! 1))
     = Inl (Raised (asc ''timeout''))
   \<and> (\<exists>r. run_agents example_oracles
          ((map detect_if_unset [product_a, product_b, product_c] ! 0)\<lparr>status := PROCESSING\<rparr>)
          (category (map detect_if_unset [product_a, product_b, product_c] ! 0)) = Inr r)
   \<and> (\<exists>r. run_agents example_oracles
          ((map detect_if_unset [product_a, product_b, product_c] ! 2)\<lparr>status := PROCESSING\<rparr>)
          (category (map detect_if_unset [product_a, product_b, product_c] ! 2)) = Inr r)
   \<and> map status (process_products example_oracles [product_a, product_b, product_c])
       = [COMPLETED, REJECTED, FAILED]
   \<and> map internal_code [product_a, product_b, product_c]
       = [asc ''A-1'', asc ''B-2'', asc ''C-3'']
   \<and> map internal_code (process_products example_oracles [product_a, product_b, product_c])
       = [asc ''A-1'', asc ''C-3'', asc ''B-2'']
   \<and> map internal_code (process_products example_oracles [product_a, product_b, product_c])
       \<noteq> map internal_code [product_a, product_b, product_c]"
proof (intro conjI)
  show "run_agents example_oracles
      ((map detect_if_unset [product_a, product_b, product_c] ! 1)\<lparr>status := PROCESSING\<rparr>)
      (category (map detect_if_unset [product_a, product_b, product_c] ! 1))
     = Inl (Raised (asc ''timeout''))"
    by (simp add: example_categories example_agents)
  show "\<exists>r. run_agents example_oracles
          ((map detect_if_unset [product_a, product_b, product_c] ! 0)\<lparr>status := PROCESSING\<rparr>)
          (category (map detect_if_unset [product_a, product_b, product_c] ! 0)) = Inr r"
    by (simp add: example_categories example_agents)
  show "\<exists>r. run_agents example_oracles
          ((map detect_if_unset [product_a, product_b, product_c] ! 2)\<lparr>status := PROCESSING\<rparr>)
          (category (map detect_if_unset [product_a, product_b, product_c] ! 2)) = Inr r"
    by (simp add: example_categories example_agents)
  show "map status (process_products example_oracles [product_a, product_b, product_c])
       = [COMPLETED, REJECTED, FAILED]"
    by (simp add: example_run process_single_product_done(1) [OF example_agents(1)]
        process_single_product_done(1) [OF example_agents(3)]
        process_single_product_failed [OF example_agents(2)])
  show i: "map internal_code [product_a, product_b, product_c]
       = [asc ''A-1'', asc ''B-2'', asc ''C-3'']"
    by (simp add: product_a_fields example_fields)
  show o: "map internal_code (process_products example_oracles [product_a, product_b, product_c])
       = [asc ''A-1'', asc ''C-3'', asc ''B-2'']"
    by (rule example_run_internal_codes)
  show "map internal_code (process_products example_oracles [product_a, product_b, product_c])
       \<noteq> map internal_code [product_a, product_b, product_c]"
    unfolding i o by (simp add: asc_def)
qed

theorem C2_one_failure_isolated_witness:
  "length (process_products example_oracles [product_a, product_b, product_c]) = 3
   \<and> status (process_single_product example_oracles (detect_if_unset product_b) TIRE) = FAILED
   \<and> error_message (process_single_product example_oracles (detect_if_unset product_b) TIRE)
       = Some (asc ''timeout'')
   \<and> status (process_single_product example_oracles (detect_if_unset product_a) HAMMER)
       \<in> {COMPLETED, REJECTED}
   \<and> status (process_single_product example_oracles (detect_if_unset product_c) HAMMER)
       \<in> {COMPLETED, REJECTED}
   \<and> map internal_code (process_products example_oracles [product_a, product_d])
       = [asc ''A-1'', asc ''B-2'']"
proof -
  let ?ps = "[product_a, product_b, product_c]"
  have i: "(1::nat) < length ?ps" by simp
  have f: "run_agents example_oracles ((map detect_if_unset ?ps ! 1)\<lparr>status := PROCESSING\<rparr>)
             (category (map detect_if_unset ?ps ! 1)) = Inl (Raised (asc ''timeout''))"
    by (simp add: example_categories example_agents)
  have o: "\<forall>j < length ?ps. j \<noteq> 1 \<longrightarrow>
             (\<exists>r. run_agents example_oracles ((map detect_if_unset ?ps ! j)\<lparr>status := PROCESSING\<rparr>)
                     (category (map detect_if_unset ?ps ! j)) = Inr r)"
  proof (intro allI impI)
    fix j :: nat
    assume "j < length ?ps" and "j \<noteq> 1"
    then have "j = 0 \<or> j = 2" by auto
    then show "\<exists>r. run_agents example_oracles
                     ((map detect_if_unset ?ps ! j)\<lparr>status := PROCESSING\<rparr>)
                     (category (map detect_if_unset ?ps ! j)) = Inr r"
      by (auto simp: example_categories example_agents)
  qed
  note t = C2_one_failure_isolated [OF i f o, of HAMMER]
  from t have "length (process_products example_oracles ?ps) = length ?ps"
    by blast
  then have l: "length (process_products example_oracles ?ps) = 3"
    by simp
  from t have "status (process_single_product example_oracles (map detect_if_unset ?ps ! 1)
                 (category (map detect_if_unset ?ps ! 1))) = FAILED"
    and "error_message (process_single_product example_oracles (map detect_if_unset ?ps ! 1)
                 (category (map detect_if_unset ?ps ! 1))) = Some (error_text (Raised (asc ''timeout'')))"
    by blast+
  then have s: "status (process_single_product example_oracles (detect_if_unset product_b) TIRE)
                    = FAILED"
    and e: "error_message (process_single_product example_oracles (detect_if_unset product_b) TIRE)
              = Some (asc ''timeout'')"
    by (simp_all add: example_categories)
  from t have q: "\<forall>j < length ?ps. j \<noteq> 1 \<longrightarrow>
           status (process_single_product example_oracles (map detect_if_unset ?ps ! j)
                     (category (map detect_if_unset ?ps ! j))) \<in> {COMPLETED, REJECTED}"
    by blast
  from q [rule_format, of 0]
  have a: "status (process_single_product example_oracles (detect_if_unset product_a) HAMMER)
             \<in> {COMPLETED, REJECTED}"
    by (simp add: example_categories)
  from q [rule_format, of 2]
  have c: "status (process_single_product example_oracles (detect_if_unset product_c) HAMMER)
             \<in> {COMPLETED, REJECTED}"
    by (simp add: example_categories)
  let ?qs = "[product_a, product_d]"
  have i': "(1::nat) < length ?qs" by simp
  have f': "run_agents example_oracles ((map detect_if_unset ?qs ! 1)\<lparr>status := PROCESSING\<rparr>)
             (category (map detect_if_unset ?qs ! 1)) = Inl (Raised (asc ''timeout''))"
    by (simp add: example_categories example_agents)
  have o': "\<forall>j < length ?qs. j \<noteq> 1 \<longrightarrow>
             (\<exists>r. run_agents example_oracles ((map detect_if_unset ?qs ! j)\<lparr>status := PROCESSING\<rparr>)
                     (category (map detect_if_unset ?qs ! j)) = Inr r)"
  proof (intro allI impI)
    fix j :: nat
    assume "j < length ?qs" and "j \<noteq> 1"
    then have "j = 0" by auto
    then show "\<exists>r. run_agents example_oracles
                     ((map detect_if_unset ?qs ! j)\<lparr>status := PROCESSING\<rparr>)
                     (category (map detect_if_unset ?qs ! j)) = Inr r"
      by (simp add: example_categories example_agents)
  qed
  have h: "\<forall>product \<in> set (map detect_if_unset ?qs). category product = HAMMER"
    by (simp add: example_categories)
  from C2_one_failure_isolated [OF i' f' o', of HAMMER] h
  have "map internal_code (process_products example_oracles ?qs) = map internal_code ?qs"
    by blast
  then have d: "map internal_code (process_products example_oracles ?qs)
                  = [asc ''A-1'', asc ''B-2'']"
    by (simp add: product_a_fields example_fields)
  from l s e a c d show ?thesis by blast
qed

theorem C7_terminal_invariants_witness:
  "map status (process_products example_oracles [product_a, product_b, product_c])
     = [COMPLETED, REJECTED, FAILED]
   \<and> okpd2_code (process_products example_oracles [product_a, product_b, product_c] ! 0) \<noteq> None
   \<and> normalized_unit (process_products example_oracles [product_a, product_b, product_c] ! 0)
       \<noteq> None
   \<and> comment (process_products example_oracles [product_a, product_b, product_c] ! 1) \<noteq> None
   \<and> error_message (process_products example_oracles [product_a, product_b, product_c] ! 2)
       \<noteq> None"
proof -
  let ?out = "process_products example_oracles [product_a, product_b, product_c]"
  have s: "map status ?out = [COMPLETED, REJECTED, FAILED]"
    by (simp add: example_run process_single_product_done(1) [OF example_agents(1)]
        process_single_product_done(1) [OF example_agents(3)]
        process_single_product_failed [OF example_agents(2)])
  have n: "length ?out = 3"
    by (simp add: example_run)
  have m: "?out ! 0 \<in> set ?out" "?out ! 1 \<in> set ?out" "?out ! 2 \<in> set ?out"
    using n by simp_all
  have t: "status (?out ! 0) = COMPLETED" "status (?out ! 1) = REJECTED"
    "status (?out ! 2) = FAILED"
    using s n by (simp_all add: example_run)
  from C7_terminal_invariants [rule_format, OF m(1)] t(1)
  have a: "okpd2_code (?out ! 0) \<noteq> None \<and> normalized_unit (?out ! 0) \<noteq> None"
    by blast
  from C7_terminal_invariants [rule_format, OF m(2)] t(2)
  have "\<exists>reason. comment (?out ! 1) = Some reason"
    by blast
  then have b: "comment (?out ! 1) \<noteq> None"
    by auto
  from C7_terminal_invariants [rule_format, OF m(3)] t(3)
  have c: "error_message (?out ! 2) \<noteq> None"
    by blast
  from s a b c show ?thesis by blast
qed

section \<open>What the detector returns\<close>

lemma scored_categories:
  "filter (\<lambda>cat. cat \<noteq> UNKNOWN) all_categories = known_categories"
  by (simp add: all_categories_def known_categories_def)

text \<open>
  \<open>max_first\<close> returns an element of the list with the greatest score, and every element
  before it has a smaller score.
\<close>

lemma max_first_spec:
  "\<exists>ys zs. b # xs = ys @ max_first b xs # zs
     \<and> (\<forall>y \<in> set ys. snd y < snd (max_first b xs))
     \<and> (\<forall>x \<in> set (b # xs). snd x \<le> snd (max_first b xs))"
proof (induction xs arbitrary: b)
  case Nil
  show ?case
    by (intro exI [of _ "[]"]) simp
next
  case (Cons x xs)
  show ?case
  proof (cases "snd x > snd b")
    case True
    from Cons.IH [of x] obtain ys zs where
      d: "x # xs = ys @ max_first x xs # zs"
      and l: "\<forall>y \<in> set ys. snd y < snd (max_first x xs)"
      and m: "\<forall>y \<in> set (x # xs). snd y \<le> snd (max_first x xs)"
      by blast
    from m have "snd x \<le> snd (max_first x xs)" by simp
    with True have s: "snd b < snd (max_first x xs)" by simp
    from True have r: "max_first b (x # xs) = max_first x xs" by simp
    from d have "b # x # xs = (b # ys) @ max_first x xs # zs" by simp
    moreover from l s have "\<forall>y \<in> set (b # ys). snd y < snd (max_first x xs)" by simp
    moreover from m s have "\<forall>y \<in> set (b # x # xs). snd y \<le> snd (max_first x xs)" by auto
    ultimately show ?thesis
      unfolding r by blast
  next
    case False
    from Cons.IH [of b] obtain ys zs where
      d: "b # xs = ys @ max_first b xs # zs"
      and l: "\<forall>y \<in> set ys. snd y < snd (max_first b xs)"
      and m: "\<forall>y \<in> set (b # xs). snd y \<le> snd (max_first b xs)"
      by blast
    from m have bm: "snd b \<le> snd (max_first b xs)" by simp
    with False have xm: "snd x \<le> snd (max_first b xs)" by simp
    from False have r: "max_first b (x # xs) = max_first b xs" by simp
    from m xm have am: "\<forall>y \<in> set (b # x # xs). snd y \<le> snd (max_first b xs)" by auto
    show ?thesis
    proof (cases ys)
      case Nil
      from d [unfolded Nil append_Nil]
      have e: "max_first b xs = b" "zs = xs" by (metis list.inject)+
      have "b # x # xs = [] @ max_first b xs # (x # zs)"
        unfolding e by simp
      moreover have "\<forall>y \<in> set ([] :: ('a \<times> rat) list). snd y < snd (max_first b xs)" by simp
      ultimately show ?thesis
        unfolding r using am by blast
    next
      case (Cons y ys')
      from d [unfolded Cons append_Cons]
      have e: "y = b" "xs = ys' @ max_first b xs # zs" by (metis list.inject)+
      from l Cons e have "snd b < snd (max_first b xs)" by simp
      with False have "snd x < snd (max_first b xs)" by simp
      with l Cons e have "\<forall>y \<in> set (b # x # ys'). snd y < snd (max_first b xs)" by simp
      moreover from e have "b # x # xs = (b # x # ys') @ max_first b xs # zs" by simp
      ultimately show ?thesis
        unfolding r using am by blast
    qed
  qed
qed

lemma find_first_maximum:
  fixes f :: "'a \<Rightarrow> rat"
  assumes "map (\<lambda>c. (c, f c)) cs = ys @ (k, v) # zs"
    and "\<forall>y \<in> set ys. snd y < v"
  shows "find (\<lambda>c. f c = v) cs = Some k \<and> k \<in> set cs \<and> f k = v"
  using assms
proof (induction cs arbitrary: ys)
  case Nil
  then show ?case by simp
next
  case (Cons c cs)
  show ?case
  proof (cases ys)
    case Nil
    with Cons.prems show ?thesis by auto
  next
    case (Cons y ys')
    with Cons.prems have "map (\<lambda>c. (c, f c)) cs = ys' @ (k, v) # zs"
      and "\<forall>y \<in> set ys'. snd y < v" and "f c < v"
      by auto
    with Cons.IH [of ys'] show ?thesis by auto
  qed
qed

lemma Max_scores:
  fixes f :: "'a \<Rightarrow> rat"
  assumes "map (\<lambda>c. (c, f c)) cs = ys @ (k, v) # zs"
    and "\<forall>x \<in> set (map (\<lambda>c. (c, f c)) cs). snd x \<le> v"
  shows "Max (set (map f cs)) = v"
proof (rule Max_eqI)
  show "finite (set (map f cs))" by simp
  show "y \<le> v" if "y \<in> set (map f cs)" for y
    using that assms(2) by auto
  have "(k, v) \<in> set (map (\<lambda>c. (c, f c)) cs)"
    unfolding assms(1) by simp
  then show "v \<in> set (map f cs)" by auto
qed

text \<open>What \<open>detect_category\<close> returns, for any scoring method.\<close>

lemma detect_category_with_cases:
  "\<exists>cat. find (\<lambda>cat. score_fn (normalize_text nm) cat = best_score score_fn nm) known_categories
             = Some cat
     \<and> cat \<noteq> UNKNOWN
     \<and> detect_category_with score_fn nm =
         (if nm = [] then (UNKNOWN, 0)
          else if best_score score_fn nm < 0.3 then (UNKNOWN, best_score score_fn nm)
          else (cat, best_score score_fn nm))"
proof -
  define f where "f = score_fn (normalize_text nm)"
  define first where "first = (PRESSURE_SENSOR, f PRESSURE_SENSOR)"
  define others where "others = [(STEEL_CIRCLE, f STEEL_CIRCLE), (HAMMER, f HAMMER), (TIRE, f TIRE)]"
  have s: "map (\<lambda>c. (c, f c)) known_categories = first # others"
    by (simp add: known_categories_def first_def others_def)
  obtain k v where kv: "max_first first others = (k, v)"
    by (cases "max_first first others") auto
  from max_first_spec [of first others] obtain ys zs where
    "first # others = ys @ max_first first others # zs"
    and "\<forall>y \<in> set ys. snd y < snd (max_first first others)"
    and "\<forall>x \<in> set (first # others). snd x \<le> snd (max_first first others)"
    by blast
  then have d: "map (\<lambda>c. (c, f c)) known_categories = ys @ (k, v) # zs"
    and l: "\<forall>y \<in> set ys. snd y < v"
    and m: "\<forall>x \<in> set (map (\<lambda>c. (c, f c)) known_categories). snd x \<le> v"
    unfolding kv s by simp_all
  from find_first_maximum [OF d l] have
    fi: "find (\<lambda>c. f c = v) known_categories = Some k" and "k \<in> set known_categories"
    by simp_all
  then have u: "k \<noteq> UNKNOWN"
    by (auto simp: known_categories_def)
  from Max_scores [OF d m] have b: "best_score score_fn nm = v"
    by (simp add: best_score_def f_def)
  have "detect_category_with score_fn nm =
          (if nm = [] then (UNKNOWN, 0)
           else if v < 0.3 then (UNKNOWN, v) else (k, v))"
    using kv
    by (simp add: detect_category_with_def scored_categories known_categories_def
        first_def others_def f_def Let_def)
  with fi u b show ?thesis
    by (simp add: f_def)
qed

subsection \<open>Blank names\<close>

lemma collapse_blank:
  assumes "\<forall>c \<in> set s. is_space c"
  shows "collapse_acc in_run s = (if s = [] \<or> in_run then [] else [0x20])"
  using assms by (induction s arbitrary: in_run) auto

lemma normalize_blank:
  assumes "\<forall>c \<in> set s. is_space c"
  shows "normalize_text s = []"
proof -
  have "is_kept 0x20" and "is_space 0x20"
    by (simp_all add: is_kept_def is_space_def)
  then show ?thesis
    by (simp add: normalize_text_def collapse_ws_def collapse_blank [OF assms] strip_def)
qed

lemma score_of_empty: "calculate_category_score [] cat = 0"
proof (cases cat)
  case PRESSURE_SENSOR
  then show ?thesis
    unfolding calculate_category_score_alt PRESSURE_SENSOR keywords_known
    by (simp add: asc_def rx_defs lower_def)
next
  case STEEL_CIRCLE
  then show ?thesis
    unfolding calculate_category_score_alt STEEL_CIRCLE keywords_known
    by (simp add: asc_def rx_defs lower_def)
next
  case HAMMER
  then show ?thesis
    unfolding calculate_category_score_alt HAMMER keywords_known
    by (simp add: asc_def rx_defs lower_def)
next
  case TIRE
  then show ?thesis
    unfolding calculate_category_score_alt TIRE keywords_known
    by (simp add: asc_def rx_defs lower_def)
next
  case UNKNOWN
  then show ?thesis
    unfolding calculate_category_score_alt UNKNOWN keywords_known
    by simp
qed

lemma detect_blank:
  assumes "\<forall>c \<in> set nm. is_space c"
  shows "detect_category nm = (UNKNOWN, 0)"
proof -
  have "best_score calculate_category_score nm = 0"
    by (simp add: best_score_def normalize_blank [OF assms] score_of_empty known_categories_def)
  with detect_category_with_cases [of calculate_category_score nm] show ?thesis
    by (auto simp: detect_category_def)
qed

text \<open>
  Claim C9. For an empty name the detector returns UNKNOWN with confidence 0, and so it
  does for a blank one. For any other name it takes the greatest score among the four
  scored categories: below 0.3 it returns UNKNOWN with that score, otherwise the first
  category in declaration order that has that score, with the score as confidence. So the
  result is UNKNOWN exactly when the name is empty or the greatest score is below 0.3. This
  holds for the detector with the base scoring and for the learning detector with any
  learned phrases.
\<close>

theorem C9_detect_category:
  "(\<exists>cat. find (\<lambda>cat. calculate_category_score (normalize_text nm) cat
                         = best_score calculate_category_score nm) known_categories = Some cat
       \<and> cat \<noteq> UNKNOWN
       \<and> detect_category nm =
           (if nm = [] then (UNKNOWN, 0)
            else if best_score calculate_category_score nm < 0.3
              then (UNKNOWN, best_score calculate_category_score nm)
            else (cat, best_score calculate_category_score nm)))
   \<and> (fst (detect_category nm) = UNKNOWN
        \<longleftrightarrow> nm = [] \<or> best_score calculate_category_score nm < 0.3)
   \<and> ((\<forall>c \<in> set nm. is_space c) \<longrightarrow> detect_category nm = (UNKNOWN, 0))
   \<and> (\<exists>cat. find (\<lambda>cat. smart_calculate_category_score learned (normalize_text nm) cat
                         = best_score (smart_calculate_category_score learned) nm)
                known_categories = Some cat
       \<and> cat \<noteq> UNKNOWN
       \<and> smart_detect_category learned nm =
           (if nm = [] then (UNKNOWN, 0)
            else if best_score (smart_calculate_category_score learned) nm < 0.3
              then (UNKNOWN, best_score (smart_calculate_category_score learned) nm)
            else (cat, best_score (smart_calculate_category_score learned) nm)))"
proof (intro conjI impI)
  show a: "\<exists>cat. find (\<lambda>cat. calculate_category_score (normalize_text nm) cat
                         = best_score calculate_category_score nm) known_categories = Some cat
       \<and> cat \<noteq> UNKNOWN
       \<and> detect_category nm =
           (if nm = [] then (UNKNOWN, 0)
            else if best_score calculate_category_score nm < 0.3
              then (UNKNOWN, best_score calculate_category_score nm)
            else (cat, best_score calculate_category_score nm))"
    unfolding detect_category_def by (rule detect_category_with_cases)
  from a obtain cat where c: "cat \<noteq> UNKNOWN"
    and d: "detect_category nm =
           (if nm = [] then (UNKNOWN, 0)
            else if best_score calculate_category_score nm < 0.3
              then (UNKNOWN, best_score calculate_category_score nm)
            else (cat, best_score calculate_category_score nm))"
    by blast
  show "fst (detect_category nm) = UNKNOWN
        \<longleftrightarrow> nm = [] \<or> best_score calculate_category_score nm < 0.3"
  proof (cases "nm = []")
    case True
    with d show ?thesis by simp
  next
    case False
    show ?thesis
    proof (cases "best_score calculate_category_score nm < 0.3")
      case True
      with d False show ?thesis by simp
    next
      case low: False
      with d False c show ?thesis by simp
    qed
  qed
  show "detect_category nm = (UNKNOWN, 0)" if "\<forall>c \<in> set nm. is_space c"
    using that by (rule detect_blank)
  show "\<exists>cat. find (\<lambda>cat. smart_calculate_category_score learned (normalize_text nm) cat
                         = best_score (smart_calculate_category_score learned) nm)
                known_categories = Some cat
       \<and> cat \<noteq> UNKNOWN
       \<and> smart_detect_category learned nm =
           (if nm = [] then (UNKNOWN, 0)
            else if best_score (smart_calculate_category_score learned) nm < 0.3
              then (UNKNOWN, best_score (smart_calculate_category_score learned) nm)
            else (cat, best_score (smart_calculate_category_score learned) nm))"
    unfolding smart_detect_category_def by (rule detect_category_with_cases)
qed

theorem C9_detect_category_witness:
  "detect_category [] = (UNKNOWN, 0)
   \<and> is_space 0x20
   \<and> detect_category [0x20, 0x20] = (UNKNOWN, 0)
   \<and> best_score calculate_category_score (asc ''tire'') = 0.5
   \<and> detect_category (asc ''tire'') = (TIRE, 0.5)"
proof -
  have s: "is_space 0x20"
    by (simp add: is_space_def)
  note t = C9_detect_category [of "[]" "\<lambda>c. None"]
    C9_detect_category [of "[0x20, 0x20]" "\<lambda>c. None"]
    C9_detect_category [of "asc ''tire''" "\<lambda>c. None"]
  from t(1) have e: "detect_category [] = (UNKNOWN, 0)"
    by auto
  from t(2) s have b: "detect_category [0x20, 0x20] = (UNKNOWN, 0)"
    by simp
  have n: "normalize_text (asc ''tire'') = [0x74, 0x69, 0x72, 0x65]"
    by (simp add: normalize_text_def collapse_ws_def strip_def is_kept_def is_word_def
        is_space_def asc_def)
  have m: "best_score calculate_category_score (asc ''tire'') = 0.5"
    by (simp add: best_score_def n tire_scores known_categories_def)
  have f: "find (\<lambda>cat. calculate_category_score (normalize_text (asc ''tire'')) cat
                         = best_score calculate_category_score (asc ''tire'')) known_categories
             = Some TIRE"
    by (simp add: m n tire_scores known_categories_def)
  have ne: "asc ''tire'' \<noteq> []"
    by (simp add: asc_def)
  from t(3) f m ne have d: "detect_category (asc ''tire'') = (TIRE, 0.5)"
    by auto
  from e s b m d show ?thesis by blast
qed

section \<open>Keywords in a name\<close>

text \<open>
  Normalizing a name keeps every run of characters that are neither whitespace nor replaced
  by a space, and the letters of the keywords are such characters; lowering a character
  keeps it so.
\<close>

lemma lower_cp_solid:
  assumes "\<not> is_space (lower_cp x) \<and> is_kept (lower_cp x)"
  shows "\<not> is_space x \<and> is_kept x"
proof -
  have "\<not> is_space x"
    using assms by (simp add: is_space_lower_cp)
  moreover have "is_kept x"
  proof (cases "lower_cp x = x")
    case True
    with assms show ?thesis by simp
  next
    case False
    then have "(0x41 \<le> x \<and> x \<le> 0x5A) \<or> (0x400 \<le> x \<and> x \<le> 0x42F)"
      by (auto simp: lower_cp_def split: if_splits)
    then show ?thesis
      by (auto simp: is_kept_def is_word_def)
  qed
  ultimately show ?thesis by simp
qed

lemma collapse_solid:
  assumes "\<forall>c \<in> set w. \<not> is_space c"
  shows "collapse_acc in_run (w @ v) = w @ collapse_acc (if w = [] then in_run else False) v"
  using assms by (induction w arbitrary: in_run) auto

lemma collapse_around_solid:
  assumes "w \<noteq> []" and "\<forall>c \<in> set w. \<not> is_space c"
  shows "collapse_acc in_run (u @ w @ v) = collapse_acc in_run u @ w @ collapse_acc False v"
proof (induction u arbitrary: in_run)
  case Nil
  show ?case
    using collapse_solid [OF assms(2), of in_run v] assms(1) by simp
next
  case (Cons a u)
  show ?case
    by (simp add: Cons.IH)
qed

lemma dropWhile_before_solid:
  assumes "w \<noteq> []" and "\<forall>c \<in> set w. \<not> is_space c"
  shows "\<exists>a'. dropWhile is_space (a @ w @ b) = a' @ w @ b"
proof (induction a)
  case Nil
  from assms obtain c w' where "w = c # w'" and "\<not> is_space c"
    by (cases w) auto
  then have "dropWhile is_space ([] @ w @ b) = [] @ w @ b"
    by simp
  then show ?case by blast
next
  case (Cons x a)
  show ?case
  proof (cases "is_space x")
    case True
    with Cons show ?thesis by simp
  next
    case False
    then have "dropWhile is_space ((x # a) @ w @ b) = (x # a) @ w @ b"
      by simp
    then show ?thesis by blast
  qed
qed

lemma strip_around_solid:
  assumes "w \<noteq> []" and "\<forall>c \<in> set w. \<not> is_space c"
  shows "\<exists>a' b'. strip (a @ w @ b) = a' @ w @ b'"
proof -
  obtain a' where 1: "dropWhile is_space (a @ w @ b) = a' @ w @ b"
    using dropWhile_before_solid [OF assms] by blast
  have "rev w \<noteq> []" and "\<forall>c \<in> set (rev w). \<not> is_space c"
    using assms by simp_all
  then obtain b' where 2: "dropWhile is_space (rev b @ rev w @ rev a') = b' @ rev w @ rev a'"
    using dropWhile_before_solid by blast
  have "strip (a @ w @ b) = a' @ w @ rev b'"
    by (simp add: strip_def 1 2)
  then show ?thesis by blast
qed

lemma normalize_keeps_solid:
  assumes "w \<noteq> []" and "\<forall>c \<in> set w. \<not> is_space c \<and> is_kept c"
  shows "\<exists>a' b'. normalize_text (a @ w @ b) = a' @ w @ b'"
proof -
  have n: "\<forall>c \<in> set w. \<not> is_space c"
    using assms(2) by simp
  have k: "map (\<lambda>c. if is_kept c then c else 0x20) w = w"
    using assms(2) by (simp add: map_idI)
  have "normalize_text (a @ w @ b) =
          strip (map (\<lambda>c. if is_kept c then c else 0x20) (collapse_acc False a) @ w
                 @ map (\<lambda>c. if is_kept c then c else 0x20) (collapse_acc False b))"
    by (simp add: normalize_text_def collapse_ws_def collapse_around_solid [OF assms(1) n] k)
  then show ?thesis
    using strip_around_solid [OF assms(1) n] by simp
qed

lemma contains_lower_normalize:
  assumes "w \<noteq> []" and "\<forall>c \<in> set w. \<not> is_space c \<and> is_kept c"
    and "contains w (lower nm)"
  shows "contains w (lower (normalize_text nm))"
proof -
  from assms(3) obtain u v where "map lower_cp nm = u @ (w @ v)"
    by (auto simp: contains_iff lower_def)
  then obtain nu rest where 1: "nm = nu @ rest" and r: "w @ v = map lower_cp rest"
    unfolding map_eq_append_conv by blast
  from r [symmetric] obtain nw nv where 2: "rest = nw @ nv" and w': "w = map lower_cp nw"
    unfolding map_eq_append_conv by blast
  from w' have w: "map lower_cp nw = w"
    by simp
  from 1 2 have nm: "nm = nu @ nw @ nv"
    by simp
  from w assms(1) have "nw \<noteq> []" by auto
  moreover have "\<forall>c \<in> set nw. \<not> is_space c \<and> is_kept c"
  proof
    fix c
    assume "c \<in> set nw"
    then have "lower_cp c \<in> set w"
      using w by auto
    with assms(2) show "\<not> is_space c \<and> is_kept c"
      using lower_cp_solid by blast
  qed
  ultimately obtain a' b' where "normalize_text nm = a' @ nw @ b'"
    unfolding nm using normalize_keeps_solid by blast
  then have "lower (normalize_text nm) = lower a' @ w @ lower b'"
    by (simp add: lower_def w)
  then show ?thesis
    by (simp add: contains_middle)
qed

lemma keywords_all_solid:
  "list_all (\<lambda>keyword. lower keyword \<noteq> []
                \<and> list_all (\<lambda>c. \<not> is_space c \<and> is_kept c) (lower keyword))
     (category_keywords cat)"
proof (cases cat)
  case PRESSURE_SENSOR
  show ?thesis
    unfolding PRESSURE_SENSOR keywords_known
    by (simp add: lower_def lower_cp_def is_space_def is_kept_def is_word_def)
next
  case STEEL_CIRCLE
  show ?thesis
    unfolding STEEL_CIRCLE keywords_known
    by (simp add: lower_def lower_cp_def is_space_def is_kept_def is_word_def)
next
  case HAMMER
  show ?thesis
    unfolding HAMMER keywords_known
    by (simp add: lower_def lower_cp_def is_space_def is_kept_def is_word_def)
next
  case TIRE
  show ?thesis
    unfolding TIRE keywords_known
    by (simp add: lower_def lower_cp_def is_space_def is_kept_def is_word_def)
next
  case UNKNOWN
  show ?thesis
    unfolding UNKNOWN keywords_known by simp
qed

lemma keywords_solid:
  assumes "keyword \<in> set (category_keywords cat)"
  shows "lower keyword \<noteq> []" and "\<forall>c \<in> set (lower keyword). \<not> is_space c \<and> is_kept c"
  using keywords_all_solid [of cat] assms by (simp_all add: list_all_iff)

lemma keyword_count_normalized:
  "length (filter (\<lambda>keyword. contains (lower keyword) (lower nm)) (category_keywords cat))
     \<le> length (filter (\<lambda>keyword. contains (lower keyword) (lower (normalize_text nm)))
                 (category_keywords cat))"
proof -
  have "filter (\<lambda>keyword. contains (lower keyword) (lower nm)) (category_keywords cat)
          = filter (\<lambda>keyword. contains (lower keyword) (lower nm))
              (filter (\<lambda>keyword. contains (lower keyword) (lower (normalize_text nm)))
                 (category_keywords cat))"
  proof -
    have "contains (lower keyword) (lower (normalize_text nm))"
      if "keyword \<in> set (category_keywords cat)" and "contains (lower keyword) (lower nm)"
      for keyword
      using contains_lower_normalize [OF keywords_solid [OF that(1)] that(2)] .
    then show ?thesis
      by (simp add: conj_commute cong: filter_cong) (rule filter_cong, auto)
  qed
  then show ?thesis
    by (metis length_filter_le)
qed

lemma two_keywords_score:
  assumes "2 \<le> length (filter (\<lambda>keyword. contains (lower keyword) (lower nm))
                          (category_keywords cat))"
  shows "0.4 \<le> calculate_category_score (normalize_text nm) cat"
proof -
  from assms keyword_count_normalized [of nm cat]
  have "2 \<le> length (filter (\<lambda>keyword. contains (lower keyword) (lower (normalize_text nm)))
                       (category_keywords cat))"
    by simp
  then have "(2::rat) \<le> of_nat (length (filter
                 (\<lambda>keyword. contains (lower keyword) (lower (normalize_text nm)))
                 (category_keywords cat)))"
    by (metis of_nat_le_iff of_nat_numeral)
  moreover have "(0::rat) \<le> (case patterns cat of
             Some ps \<Rightarrow> of_nat (length (filter (\<lambda>pattern. re_search pattern (normalize_text nm)) ps))
                           * 0.3
           | None \<Rightarrow> 0)"
    by (simp split: option.splits)
  ultimately show ?thesis
    unfolding calculate_category_score_alt by simp
qed

lemma smart_score_ge:
  "calculate_category_score tx cat \<le> smart_calculate_category_score learned tx cat"
  using calculate_category_score_le_1 [of tx cat]
  by (simp add: smart_calculate_category_score_def Let_def split: option.splits)

lemma detected_when_scored:
  assumes "nm \<noteq> []" and "cat \<noteq> UNKNOWN" and "0.3 \<le> score_fn (normalize_text nm) cat"
  shows "fst (detect_category_with score_fn nm) \<noteq> UNKNOWN
         \<and> 0.3 \<le> snd (detect_category_with score_fn nm)"
proof -
  from assms(2) have "cat \<in> set known_categories"
    by (cases cat) (simp_all add: known_categories_def)
  then have "score_fn (normalize_text nm) cat \<le> best_score score_fn nm"
    by (simp add: best_score_def)
  with assms(3) have "\<not> best_score score_fn nm < 0.3" and "0.3 \<le> best_score score_fn nm"
    by simp_all
  with assms(1) detect_category_with_cases [of score_fn nm] show ?thesis
    by auto
qed

text \<open>
  Claim C8. A name that holds, without regard to case, at least two of the declared
  keywords of a category other than UNKNOWN is detected with a confidence of at least 0.3
  and not as UNKNOWN, by the detector with the base scoring and by the learning detector
  with any learned phrases. The keywords of the other categories play no part in this, so
  the claim's condition on them is not needed.
\<close>

theorem C8_two_keywords_detected:
  assumes "cat \<noteq> UNKNOWN"
    and "2 \<le> length (filter (\<lambda>keyword. contains (lower keyword) (lower nm))
                        (category_keywords cat))"
  shows "fst (detect_category nm) \<noteq> UNKNOWN \<and> 0.3 \<le> snd (detect_category nm)
         \<and> fst (smart_detect_category learned nm) \<noteq> UNKNOWN
         \<and> 0.3 \<le> snd (smart_detect_category learned nm)"
proof -
  from assms(2) have "filter (\<lambda>keyword. contains (lower keyword) (lower nm))
                        (category_keywords cat) \<noteq> []"
    by auto
  then obtain keyword where "keyword \<in> set (category_keywords cat)"
    and "contains (lower keyword) (lower nm)"
    by (auto simp: filter_empty_conv)
  with keywords_solid(1) [of keyword cat] have "lower nm \<noteq> []"
    by (auto simp: contains_iff)
  then have n: "nm \<noteq> []"
    by (auto simp: lower_def)
  from two_keywords_score [OF assms(2)]
  have b: "0.3 \<le> calculate_category_score (normalize_text nm) cat"
    by simp
  with smart_score_ge [of "normalize_text nm" cat learned]
  have s: "0.3 \<le> smart_calculate_category_score learned (normalize_text nm) cat"
    by simp
  from detected_when_scored [where score_fn = calculate_category_score, OF n assms(1) b]
    detected_when_scored [where score_fn = "smart_calculate_category_score learned",
      OF n assms(1) s]
  show ?thesis
    by (simp add: detect_category_def smart_detect_category_def)
qed

theorem C8_two_keywords_detected_witness:
  "STEEL_CIRCLE \<noteq> UNKNOWN
   \<and> length (filter (\<lambda>keyword. contains (lower keyword) (lower (asc ''Steel circle 20'')))
               (category_keywords STEEL_CIRCLE)) = 2
   \<and> fst (detect_category (asc ''Steel circle 20'')) \<noteq> UNKNOWN
   \<and> 0.3 \<le> snd (detect_category (asc ''Steel circle 20''))"
proof -
  have c: "length (filter (\<lambda>keyword. contains (lower keyword) (lower (asc ''Steel circle 20'')))
               (category_keywords STEEL_CIRCLE)) = 2"
    unfolding keywords_known by (simp add: asc_def lower_def lower_cp_def)
  have u: "STEEL_CIRCLE \<noteq> UNKNOWN"
    by simp
  have "2 \<le> length (filter (\<lambda>keyword. contains (lower keyword) (lower (asc ''Steel circle 20'')))
               (category_keywords STEEL_CIRCLE))"
    using c by simp
  from C8_two_keywords_detected [OF u this, of "\<lambda>c. None"] c show ?thesis
    by simp
qed

section \<open>The normalized unit of a returned product\<close>

lemma detect_if_unset_keeps:
  "original_unit (detect_if_unset p) = original_unit p"
  "normalized_unit (detect_if_unset p) = normalized_unit p"
  by (simp_all add: detect_if_unset_def Let_def split: prod.splits)

lemma detect_if_unset_internal_code:
  "internal_code (detect_if_unset p) = internal_code p"
  by (simp add: detect_if_unset_def Let_def split: prod.splits)

lemma processed_fields:
  "category (process_single_product orc p cat) = category p"
  "original_unit (process_single_product orc p cat) = original_unit p"
  by (simp_all add: process_single_product_def Let_def split: sum.splits prod.splits)

lemma processed_unit:
  "(\<exists>e. run_agents orc (p\<lparr>status := PROCESSING\<rparr>) cat = Inl e
        \<and> status (process_single_product orc p cat) = FAILED
        \<and> normalized_unit (process_single_product orc p cat) = normalized_unit p)
   \<or> (\<exists>rr ok v. run_agents orc (p\<lparr>status := PROCESSING\<rparr>) cat = Inr (rr, ok, v)
        \<and> status (process_single_product orc p cat) \<in> {COMPLETED, REJECTED}
        \<and> normalized_unit (process_single_product orc p cat)
              = Some (get_normalized_unit p cat))"
proof (cases "run_agents orc (p\<lparr>status := PROCESSING\<rparr>) cat")
  case (Inl e)
  then show ?thesis
    by (simp add: process_single_product_failed [OF Inl])
next
  case (Inr r)
  obtain rr ok v where r: "r = (rr, ok, v)"
    by (cases r) auto
  from Inr r have a: "run_agents orc (p\<lparr>status := PROCESSING\<rparr>) cat = Inr (rr, ok, v)"
    by simp
  show ?thesis
    by (simp add: a process_single_product_done(1,3) [OF a])
qed

text \<open>
  Claim C10, as stated, fails for a product whose agents raise. In the example run the
  research of the tire B-2 raises: the assignment of the normalized unit is skipped, and the
  run returns the product FAILED with no normalized unit, although its category TIRE is
  known and its original unit is one of the valid units of the category.
\<close>

theorem C10_failed_product_counterexample:
  "internal_code (process_products example_oracles [product_a, product_b, product_c] ! 2)
     = asc ''B-2''
   \<and> category (process_products example_oracles [product_a, product_b, product_c] ! 2) = TIRE
   \<and> original_unit (process_products example_oracles [product_a, product_b, product_c] ! 2)
       = [0x448, 0x442]
   \<and> category_units TIRE
       = Some [[0x448, 0x442, 0x443, 0x43A, 0x430], [0x448, 0x442], [0x448, 0x442, 0x2E]]
   \<and> status (process_products example_oracles [product_a, product_b, product_c] ! 2) = FAILED
   \<and> normalized_unit (process_products example_oracles [product_a, product_b, product_c] ! 2)
       = None"
proof -
  have r: "process_products example_oracles [product_a, product_b, product_c] ! 2
             = (detect_if_unset product_b)
                 \<lparr>status := FAILED, error_message := Some (error_text (Raised (asc ''timeout'')))\<rparr>"
    by (simp add: example_run process_single_product_failed [OF example_agents(2)])
  show ?thesis
    unfolding r detect_examples
    by (simp add: product_b_def example_product_def category_units_known units_piece_def)
qed

text \<open>
  Claim C10, amended. Every product that a run returns comes from an input product in one
  of two ways. Either its agents raised: it is FAILED and has the normalized unit it came
  with, which is none unless the input gave one. Or its agents returned: it is COMPLETED or
  REJECTED and its normalized unit is the string that \<open>_get_normalized_unit\<close> returns for
  its category, which is the first-listed unit of the category when the category has valid
  units (every category but UNKNOWN has) and the lowercased original unit is among them,
  lowercased, and the original unit otherwise.
\<close>

theorem C10_normalized_unit:
  "get_normalized_unit product cat =
     (case category_units cat of
        Some (canonical # others) \<Rightarrow>
          if lower (original_unit product) \<in> set (map lower (canonical # others))
          then canonical else original_unit product
      | _ \<Rightarrow> original_unit product)
   \<and> (cat \<noteq> UNKNOWN \<longrightarrow> (\<exists>canonical others. category_units cat = Some (canonical # others)))
   \<and> category_units UNKNOWN = None
   \<and> (\<forall>rr ok v. run_agents orc (product\<lparr>status := PROCESSING\<rparr>) cat = Inr (rr, ok, v) \<longrightarrow>
         normalized_unit (process_single_product orc product cat)
           = Some (get_normalized_unit product cat))
   \<and> (\<forall>e. run_agents orc (product\<lparr>status := PROCESSING\<rparr>) cat = Inl e \<longrightarrow>
         status (process_single_product orc product cat) = FAILED
         \<and> normalized_unit (process_single_product orc product cat) = normalized_unit product)
   \<and> (\<forall>q \<in> set (process_products orc ps). \<exists>p \<in> set ps.
         internal_code q = internal_code p
         \<and> category q = category (detect_if_unset p)
         \<and> original_unit q = original_unit p
         \<and> (status q = FAILED \<and> normalized_unit q = normalized_unit p
            \<or> status q \<in> {COMPLETED, REJECTED}
              \<and> normalized_unit q = Some (get_normalized_unit p (category q))))"
proof (intro conjI allI impI ballI)
  show "get_normalized_unit product cat =
     (case category_units cat of
        Some (canonical # others) \<Rightarrow>
          if lower (original_unit product) \<in> set (map lower (canonical # others))
          then canonical else original_unit product
      | _ \<Rightarrow> original_unit product)"
    by (auto simp: get_normalized_unit_def category_units_def split: option.splits list.splits)
  show "\<exists>canonical others. category_units cat = Some (canonical # others)" if "cat \<noteq> UNKNOWN"
    using that by (cases cat) (simp_all add: category_units_known units_piece_def units_ton_def)
  show "category_units UNKNOWN = None"
    by (simp add: category_units_known)
  show "normalized_unit (process_single_product orc product cat)
          = Some (get_normalized_unit product cat)"
    if "run_agents orc (product\<lparr>status := PROCESSING\<rparr>) cat = Inr (rr, ok, v)" for rr ok v
    using that by (rule process_single_product_done(3))
  show "status (process_single_product orc product cat) = FAILED"
    if "run_agents orc (product\<lparr>status := PROCESSING\<rparr>) cat = Inl e" for e
    by (simp add: process_single_product_failed [OF that])
  show "normalized_unit (process_single_product orc product cat) = normalized_unit product"
    if "run_agents orc (product\<lparr>status := PROCESSING\<rparr>) cat = Inl e" for e
    by (simp add: process_single_product_failed [OF that])
  show "\<exists>p \<in> set ps.
         internal_code q = internal_code p
         \<and> category q = category (detect_if_unset p)
         \<and> original_unit q = original_unit p
         \<and> (status q = FAILED \<and> normalized_unit q = normalized_unit p
            \<or> status q \<in> {COMPLETED, REJECTED}
              \<and> normalized_unit q = Some (get_normalized_unit p (category q)))"
    if "q \<in> set (process_products orc ps)" for q
  proof -
    from process_products_member [OF that] obtain p where p: "p \<in> set ps"
      and q: "q = process_single_product orc (detect_if_unset p) (category (detect_if_unset p))"
      by auto
    let ?p = "detect_if_unset p"
    have i: "internal_code q = internal_code p"
      by (simp add: q internal_code_process_single_product detect_if_unset_internal_code)
    have k: "category q = category ?p \<and> original_unit q = original_unit p"
      using processed_fields [of orc ?p "category ?p"] by (simp add: q detect_if_unset_keeps)
    have g: "get_normalized_unit ?p c = get_normalized_unit p c" for c
      by (rule get_normalized_unit_original_unit) (simp add: detect_if_unset_keeps)
    from processed_unit [of orc ?p "category ?p"]
    have "status q = FAILED \<and> normalized_unit q = normalized_unit p
          \<or> status q \<in> {COMPLETED, REJECTED}
            \<and> normalized_unit q = Some (get_normalized_unit p (category q))"
      using k by (auto simp: q [symmetric] detect_if_unset_keeps g)
    with p i k show ?thesis
      by blast
  qed
qed

theorem C10_normalized_unit_witness:
  "category_units HAMMER = Some units_piece
   \<and> original_unit product_a = [0x428, 0x442]
   \<and> run_agents example_oracles ((detect_if_unset product_a)\<lparr>status := PROCESSING\<rparr>) HAMMER
       = Inr (hammer_result, hammer_classification,
              \<lparr>is_valid = True, issues = [], rejection_reason = None, suggestions = []\<rparr>)
   \<and> normalized_unit (process_single_product example_oracles (detect_if_unset product_a) HAMMER)
       = Some [0x448, 0x442, 0x443, 0x43A, 0x430]
   \<and> get_normalized_unit product_b UNKNOWN = [0x448, 0x442]
   \<and> run_agents example_oracles ((detect_if_unset product_b)\<lparr>status := PROCESSING\<rparr>) TIRE
       = Inl (Raised (asc ''timeout''))
   \<and> status (process_single_product example_oracles (detect_if_unset product_b) TIRE) = FAILED
   \<and> normalized_unit (process_single_product example_oracles (detect_if_unset product_b) TIRE)
       = normalized_unit (detect_if_unset product_b)
   \<and> process_single_product example_oracles (detect_if_unset product_a) HAMMER
       \<in> set (process_products example_oracles [product_a, product_b, product_c])
   \<and> (\<exists>p \<in> set [product_a, product_b, product_c].
         internal_code (process_single_product example_oracles (detect_if_unset product_a) HAMMER)
           = internal_code p
         \<and> category (process_single_product example_oracles (detect_if_unset product_a) HAMMER)
           = category (detect_if_unset p)
         \<and> original_unit (process_single_product example_oracles (detect_if_unset product_a) HAMMER)
           = original_unit p
         \<and> (status (process_single_product example_oracles (detect_if_unset product_a) HAMMER)
              = FAILED
            \<and> normalized_unit
                (process_single_product example_oracles (detect_if_unset product_a) HAMMER)
              = normalized_unit p
            \<or> status (process_single_product example_oracles (detect_if_unset product_a) HAMMER)
              \<in> {COMPLETED, REJECTED}
            \<and> normalized_unit
                (process_single_product example_oracles (detect_if_unset product_a) HAMMER)
              = Some (get_normalized_unit p
                  (category
                    (process_single_product example_oracles (detect_if_unset product_a)
                      HAMMER)))))"
proof -
  let ?run = "process_products example_oracles [product_a, product_b, product_c]"
  let ?qa = "process_single_product example_oracles (detect_if_unset product_a) HAMMER"
  have u: "original_unit product_a = [0x428, 0x442]"
    by (simp add: product_a_def example_product_def)
  have u': "original_unit (detect_if_unset product_a) = [0x428, 0x442]"
    by (simp add: detect_examples u)
  have b: "original_unit product_b = [0x448, 0x442]"
    by (simp add: product_b_def example_product_def)
  note t = C10_normalized_unit [of "detect_if_unset product_a" HAMMER example_oracles
      "[product_a, product_b, product_c]"]
  note tb = C10_normalized_unit [of "detect_if_unset product_b" TIRE example_oracles
      "[product_a, product_b, product_c]"]
  from t example_agents(1)
  have 1: "normalized_unit ?qa = Some (get_normalized_unit (detect_if_unset product_a) HAMMER)"
    by blast
  from t have 2: "get_normalized_unit (detect_if_unset product_a) HAMMER
          = [0x448, 0x442, 0x443, 0x43A, 0x430]"
    by (simp add: category_units_known units_piece_def u' lower_def lower_cp_def)
  from C10_normalized_unit [of product_b UNKNOWN example_oracles "[]"]
  have 3: "get_normalized_unit product_b UNKNOWN = [0x448, 0x442]"
    by (simp add: category_units_known b)
  from tb example_agents(2)
  have 4: "status (process_single_product example_oracles (detect_if_unset product_b) TIRE)
             = FAILED
           \<and> normalized_unit (process_single_product example_oracles (detect_if_unset product_b) TIRE)
             = normalized_unit (detect_if_unset product_b)"
    by blast
  have m: "?qa \<in> set ?run"
    by (simp add: example_run)
  from t have "\<forall>q \<in> set ?run. \<exists>p \<in> set [product_a, product_b, product_c].
         internal_code q = internal_code p
         \<and> category q = category (detect_if_unset p)
         \<and> original_unit q = original_unit p
         \<and> (status q = FAILED \<and> normalized_unit q = normalized_unit p
            \<or> status q \<in> {COMPLETED, REJECTED}
              \<and> normalized_unit q = Some (get_normalized_unit p (category q)))"
    by blast
  from bspec [OF this m]
  have 5: "\<exists>p \<in> set [product_a, product_b, product_c].
         internal_code ?qa = internal_code p
         \<and> category ?qa = category (detect_if_unset p)
         \<and> original_unit ?qa = original_unit p
         \<and> (status ?qa = FAILED \<and> normalized_unit ?qa = normalized_unit p
            \<or> status ?qa \<in> {COMPLETED, REJECTED}
              \<and> normalized_unit ?qa = Some (get_normalized_unit p (category ?qa)))" .
  have 6: "category_units HAMMER = Some units_piece"
    by (simp add: category_units_known)
  from 1 2 have 7: "normalized_unit ?qa = Some [0x448, 0x442, 0x443, 0x43A, 0x430]"
    by simp
  from 6 u example_agents(1) 7 3 example_agents(2) 4 m 5 show ?thesis
    by (intro conjI) blast+
qed

end
